theory Spec2Isabelle
  imports Complex_Main "HOL-Library.Sublist"
begin

section \<open>Python values and the operations the indexer applies to them\<close>

text \<open>
  The indexer of \<^verbatim>\<open>core/indexer.py\<close> handles values of type \<^verbatim>\<open>Dict[str, Any]\<close>
  (documents, metadata, decoded JSON bodies).  They are modelled by \<open>pyval\<close>: a dict is
  an association list with string keys, in insertion order; \<open>PObject\<close> stands for any
  Python object that \<^verbatim>\<open>json.dumps\<close> rejects.  Floats are left out.
  A Python exception is a value of type \<open>error\<close>; a computation that may raise
  returns \<open>error + 'a\<close>, with \<open>Inl\<close> for the exception.
\<close>

datatype error =
    TransportError
  | PlaywrightTimeoutError
  | JSONDecodeError
  | KeyError
  | TypeError
  | IndexError
  | ValueError
  | AttributeError
  | UnboundLocalError
  | FileNotFoundError
  | LibraryError string

datatype pyval =
    PNone
  | PBool bool
  | PInt int
  | PStr string
  | PList "pyval list"
  | PDict "(string \<times> pyval) list"
  | PObject nat

text \<open>Truth value of a Python object, as \<^verbatim>\<open>if x:\<close> and \<^verbatim>\<open>and\<close> take it.\<close>

fun py_truthy :: "pyval \<Rightarrow> bool" where
  "py_truthy PNone = False"
| "py_truthy (PBool b) = b"
| "py_truthy (PInt i) = (i \<noteq> 0)"
| "py_truthy (PStr s) = (s \<noteq> [])"
| "py_truthy (PList vs) = (vs \<noteq> [])"
| "py_truthy (PDict kvs) = (kvs \<noteq> [])"
| "py_truthy (PObject n) = True"

text \<open>\<^verbatim>\<open>needle in hay\<close> for two strings: \<open>needle\<close> occurs as a contiguous part.\<close>

fun substring :: "string \<Rightarrow> string \<Rightarrow> bool" where
  "substring needle [] = (needle = [])"
| "substring needle (c # cs) = (prefix needle (c # cs) \<or> substring needle cs)"

text \<open>
  \<^verbatim>\<open>s in v\<close> for a string \<open>s\<close>: substring test on a string, membership on a list,
  key membership on a dict, \<^verbatim>\<open>TypeError\<close> on anything else.
\<close>

fun py_in :: "string \<Rightarrow> pyval \<Rightarrow> error + bool" where
  "py_in s (PStr t) = Inr (substring s t)"
| "py_in s (PList vs) = Inr (PStr s \<in> set vs)"
| "py_in s (PDict kvs) = Inr (s \<in> fst ` set kvs)"
| "py_in s PNone = Inl TypeError"
| "py_in s (PBool b) = Inl TypeError"
| "py_in s (PInt i) = Inl TypeError"
| "py_in s (PObject n) = Inl TypeError"

text \<open>\<^verbatim>\<open>v[k]\<close> for a string key \<open>k\<close>: defined on dicts only.\<close>

fun py_getitem :: "pyval \<Rightarrow> string \<Rightarrow> error + pyval" where
  "py_getitem (PDict kvs) k = (case map_of kvs k of None \<Rightarrow> Inl KeyError | Some v \<Rightarrow> Inr v)"
| "py_getitem PNone k = Inl TypeError"
| "py_getitem (PBool b) k = Inl TypeError"
| "py_getitem (PInt i) k = Inl TypeError"
| "py_getitem (PStr s) k = Inl TypeError"
| "py_getitem (PList vs) k = Inl TypeError"
| "py_getitem (PObject n) k = Inl TypeError"

text \<open>\<^verbatim>\<open>xs[i]\<close> for a list and a non-negative index.\<close>

definition py_index :: "'a list \<Rightarrow> nat \<Rightarrow> error + 'a" where
  "py_index xs i = (if i < length xs then Inr (xs ! i) else Inl IndexError)"

text \<open>
  \<^verbatim>\<open>s.split(sep)\<close>: the pieces of \<open>s\<close> between the non-overlapping occurrences of
  \<open>sep\<close>, found from the left; an empty separator raises \<^verbatim>\<open>ValueError\<close>.
\<close>

function py_split_from :: "string \<Rightarrow> string \<Rightarrow> string \<Rightarrow> string list" where
  "py_split_from sep cur [] = [cur]"
| "py_split_from sep cur (c # cs) =
     (if sep \<noteq> [] \<and> prefix sep (c # cs)
      then cur # py_split_from sep [] (drop (length sep) (c # cs))
      else py_split_from sep (cur @ [c]) cs)"
  by pat_completeness auto
termination
  by (relation "measure (\<lambda>(sep, cur, s). length s)") auto

definition py_split :: "string \<Rightarrow> string \<Rightarrow> error + string list" where
  "py_split s sep = (if sep = [] then Inl ValueError else Inr (py_split_from sep [] s))"

text \<open>\<^verbatim>\<open>v.split(sep)\<close> on an arbitrary value: only a string has the method.\<close>

fun py_split_val :: "pyval \<Rightarrow> string \<Rightarrow> error + string list" where
  "py_split_val (PStr s) sep = py_split s sep"
| "py_split_val PNone sep = Inl AttributeError"
| "py_split_val (PBool b) sep = Inl AttributeError"
| "py_split_val (PInt i) sep = Inl AttributeError"
| "py_split_val (PList vs) sep = Inl AttributeError"
| "py_split_val (PDict kvs) sep = Inl AttributeError"
| "py_split_val (PObject n) sep = Inl AttributeError"

text \<open>\<^verbatim>\<open>s.endswith(t)\<close>.\<close>

definition endswith :: "string \<Rightarrow> string \<Rightarrow> bool" where
  "endswith s t = suffix t s"

text \<open>\<^verbatim>\<open>s.lower()\<close>, on the letters A to Z; every other character is kept.\<close>

definition lower_char :: "char \<Rightarrow> char" where
  "lower_char c =
     (case map_of (zip ''ABCDEFGHIJKLMNOPQRSTUVWXYZ'' ''abcdefghijklmnopqrstuvwxyz'') c of
        Some d \<Rightarrow> d
      | None \<Rightarrow> c)"

definition lower :: "string \<Rightarrow> string" where
  "lower s = map lower_char s"

text \<open>
  \<^verbatim>\<open>json.dumps\<close> raises \<^verbatim>\<open>TypeError\<close> exactly on a value that holds an object it
  cannot encode.  The text it returns otherwise is the parameter \<open>encode\<close>.
\<close>

fun serializable :: "pyval \<Rightarrow> bool" where
  "serializable (PList vs) = (\<forall>v \<in> set vs. serializable v)"
| "serializable (PDict kvs) = (\<forall>v \<in> set (map snd kvs). serializable v)"
| "serializable (PObject n) = False"
| "serializable PNone = True"
| "serializable (PBool b) = True"
| "serializable (PInt i) = True"
| "serializable (PStr s) = True"

definition json_dumps :: "(pyval \<Rightarrow> string) \<Rightarrow> pyval \<Rightarrow> error + string" where
  "json_dumps encode v = (if serializable v then Inr (encode v) else Inl TypeError)"

section \<open>The remote service, the file system and the log\<close>

text \<open>
  An HTTP response, as far as the indexer reads it: \<open>resp_json\<close> is what
  \<^verbatim>\<open>response.json()\<close> returns or raises, \<open>resp_content\<close> the bytes that
  \<^verbatim>\<open>iter_content\<close> streams.
\<close>

record response =
  status_code :: int
  reason :: string
  resp_text :: string
  resp_json :: "error + pyval"
  resp_content :: string

text \<open>
  The calls the indexer makes on its HTTP session.  A URL built by an f-string is kept as
  its parts: \<open>PostDeleteDoc e d h\<close> is the POST of data \<open>d\<close> to
  \<^verbatim>\<open>https://{e}/v1/delete-doc\<close>, \<open>PostIndex e d h\<close> the POST to
  \<^verbatim>\<open>https://{e}/v1/index\<close>, and \<open>PostUpload e c o dflag uri bytes md h\<close> the
  multipart POST to \<^verbatim>\<open>https://{e}/upload?c={c}&o={o}\<close> (followed by \<^verbatim>\<open>&d=True\<close>
  when \<open>dflag\<close> holds) of a file part named \<open>uri\<close> that carries \<open>bytes\<close>, the bytes
  read from the file object when the call is sent, and of the part \<^verbatim>\<open>doc_metadata\<close>
  with text \<open>md\<close>.  The headers \<open>h\<close> are the values of
  \<^verbatim>\<open>x-api-key\<close> and \<^verbatim>\<open>customer-id\<close>.  \<open>GetStream u\<close> is
  \<^verbatim>\<open>session.get(u, stream=True)\<close>.
\<close>

type_synonym headers = "string \<times> string"

datatype request =
    PostDeleteDoc string string headers
  | PostIndex string string headers
  | PostUpload string string int bool string string string headers
  | GetStream string

text \<open>The log: level, message (named after its text in the source), interpolated values.\<close>

datatype level = INFO | ERROR

datatype message =
    OpenAI_key_not_found
  | Delete_request_failed
  | File_does_not_exist
  | REST_upload_successful_reindex
  | REST_upload_reindex_failed
  | REST_upload_for_uri_failed
  | REST_upload_successful
  | Cant_serialize_request
  | Exception_while_indexing
  | REST_upload_failed
  | Already_exists_reindexing
  | Already_exists_skipping
  | Indexing_document_failed
  | Page_loading_timed_out
  | Page_loading_failed
  | File_downloaded
  | Failed_to_download
  | Detected_language
  | Retrieving_content_took
  | Failed_to_crawl
  | Indexing_text_only
  | Failed_to_index

datatype logarg = LStr string | LInt int | LVal pyval | LErr error

type_synonym log_entry = "level \<times> message \<times> logarg list"

text \<open>
  The mutable world of one indexer: the HTTP calls made so far, in order, the log, the
  local files (name to bytes) and the cached \<^verbatim>\<open>self.detected_language\<close>.
\<close>

record world =
  trace :: "request list"
  logs :: "log_entry list"
  fs :: "string \<rightharpoonup> string"
  detected_language :: "string option"

text \<open>What a PDF partitions into: \<^verbatim>\<open>type(x)\<close> and \<^verbatim>\<open>str(x)\<close> of each element.\<close>

datatype element_type = Title | Table | NarrativeText | OtherElement string

record element =
  el_type :: element_type
  el_str :: string

text \<open>What the browser does on one page load of \<^verbatim>\<open>fetch_page_contents\<close>.\<close>

datatype page_load =
    LoadFailed error
  | LinksFailed string string error
  | Loaded string string "string list"

text \<open>
  Everything outside \<^verbatim>\<open>core/indexer.py\<close> is a parameter: the remote side
  (\<open>http\<close>, which answers a call knowing the calls before it, or raises), the text
  \<^verbatim>\<open>json.dumps\<close> produces, \<^verbatim>\<open>slugify\<close>, \<^verbatim>\<open>partition_pdf\<close> (on the bytes
  of the file), the helpers of \<^verbatim>\<open>core.utils\<close> and \<^verbatim>\<open>core.extract\<close>, and the
  browser.  \<open>table_summarizer\<close> is line 263 of \<^verbatim>\<open>_parse_pdf_file\<close>,
  \<^verbatim>\<open>TableSummarizer(self.cfg.vectara.openai_api_key)\<close>: applied to the configured
  key (\<open>None\<close> when the configuration has none) it yields the method
  \<^verbatim>\<open>summarize_table_text\<close> of the summarizer built, or the exception that reading the
  key or building the summarizer raises.
\<close>

record env =
  http :: "request list \<Rightarrow> request \<Rightarrow> error + response"
  encode :: "pyval \<Rightarrow> string"
  slugify :: "string \<Rightarrow> string"
  partition_pdf :: "string \<Rightarrow> error + element list"
  table_summarizer :: "string option \<Rightarrow> error + (string \<Rightarrow> error + string)"
  get_file_size_in_MB :: "string \<Rightarrow> real"
  download_triggered :: "string \<Rightarrow> bool"
  page_load :: "string \<Rightarrow> page_load"
  body_get_text :: "string \<Rightarrow> error + string"
  detect_language :: "string \<Rightarrow> error + string"
  get_content_and_title :: "string \<Rightarrow> string \<Rightarrow> string \<Rightarrow> bool \<Rightarrow> error + (string \<times> string option)"

text \<open>
  The fields of \<^verbatim>\<open>Indexer\<close> set by \<^verbatim>\<open>__init__\<close> and never changed after;
  \<open>openai_api_key\<close> is the key that \<^verbatim>\<open>self.cfg.vectara\<close> holds, if any.
\<close>

record indexer =
  endpoint :: string
  customer_id :: string
  corpus_id :: int
  api_key :: string
  reindex :: bool
  remove_code :: bool
  summarize_tables :: bool
  openai_api_key :: "string option"

text \<open>
  The two keys of \<^verbatim>\<open>cfg.vectara\<close> that decide table summarization, each absent or
  set.
\<close>

record vectara_cfg =
  cfg_summarize_tables :: "bool option"
  cfg_openai_api_key :: "string option"

definition logging :: "level \<Rightarrow> message \<Rightarrow> logarg list \<Rightarrow> world \<Rightarrow> world" where
  "logging lv m args w = w\<lparr>logs := logs w @ [(lv, m, args)]\<rparr>"

text \<open>\<^verbatim>\<open>self.session.post\<close> and \<^verbatim>\<open>self.session.get\<close>: the call is recorded, the remote side answers.\<close>

definition session_request :: "env \<Rightarrow> request \<Rightarrow> world \<Rightarrow> (error + response) \<times> world" where
  "session_request env rq w = (http env (trace w) rq, w\<lparr>trace := trace w @ [rq]\<rparr>)"

text \<open>
  \<^verbatim>\<open>__init__\<close> (lines 42 to 58), without the timeout and the browser set-up: table
  summarization is what \<^verbatim>\<open>cfg.vectara.get("summarize_tables", False)\<close> says, and is
  switched off, with a log line, when no OpenAI key is configured.
\<close>

definition new_indexer ::
  "vectara_cfg \<Rightarrow> string \<Rightarrow> string \<Rightarrow> int \<Rightarrow> string \<Rightarrow> bool \<Rightarrow> bool \<Rightarrow> world
     \<Rightarrow> indexer \<times> world" where
  "new_indexer cfg host customer corpus key redo strip_code w =
     (let wanted = (case cfg_summarize_tables cfg of None \<Rightarrow> False | Some b \<Rightarrow> b);
          self = \<lparr>endpoint = host, customer_id = customer, corpus_id = corpus,
                  api_key = key, reindex = redo, remove_code = strip_code,
                  summarize_tables = wanted, openai_api_key = cfg_openai_api_key cfg\<rparr>
      in if cfg_openai_api_key cfg = None
         then (self\<lparr>summarize_tables := False\<rparr>, logging INFO OpenAI_key_not_found [] w)
         else (self, w))"

definition post_headers :: "indexer \<Rightarrow> headers" where
  "post_headers self = (api_key self, customer_id self)"

section \<open>The indexing client\<close>

text \<open>\<^verbatim>\<open>delete_doc\<close> (lines 132 to 152).\<close>

definition delete_doc :: "env \<Rightarrow> indexer \<Rightarrow> pyval \<Rightarrow> world \<Rightarrow> (error + bool) \<times> world" where
  "delete_doc env self doc_id w =
     (case json_dumps (encode env)
             (PDict [(''customer_id'', PStr (customer_id self)),
                     (''corpus_id'', PInt (corpus_id self)),
                     (''document_id'', doc_id)]) of
        Inl e \<Rightarrow> (Inl e, w)
      | Inr data \<Rightarrow>
          (case session_request env (PostDeleteDoc (endpoint self) data (post_headers self)) w of
             (Inl e, w1) \<Rightarrow> (Inl e, w1)
           | (Inr response, w1) \<Rightarrow>
               if status_code response \<noteq> 200
               then (Inr False,
                     logging ERROR Delete_request_failed
                       [LVal doc_id, LInt (status_code response), LStr (reason response),
                        LStr (resp_text response)] w1)
               else (Inr True, w1)))"

text \<open>
  Line 183 of \<^verbatim>\<open>_index_file\<close>:
  \<^verbatim>\<open>response.json()['details'].split('document id')[1].split("'")[1]\<close>.
\<close>

definition conflict_doc_id :: "response \<Rightarrow> error + string" where
  "conflict_doc_id response =
     (case resp_json response of
        Inl e \<Rightarrow> Inl e
      | Inr body \<Rightarrow>
          (case py_getitem body ''details'' of
             Inl e \<Rightarrow> Inl e
           | Inr details \<Rightarrow>
               (case py_split_val details ''document id'' of
                  Inl e \<Rightarrow> Inl e
                | Inr parts \<Rightarrow>
                    (case py_index parts 1 of
                       Inl e \<Rightarrow> Inl e
                     | Inr p \<Rightarrow>
                         (case py_split p [CHR 0x27] of
                            Inl e \<Rightarrow> Inl e
                          | Inr qs \<Rightarrow> py_index qs 1)))))"

text \<open>
  \<^verbatim>\<open>_index_file\<close> (lines 154 to 200).  The dict \<^verbatim>\<open>files\<close> of lines 173 to 176
  holds one file object, opened once.  Sending the first POST reads that object to its
  end; the POST of lines 185 to 187 passes the same dict, so that its file part carries
  what is left to read: no bytes.
\<close>

definition p_index_file ::
  "env \<Rightarrow> indexer \<Rightarrow> string \<Rightarrow> string \<Rightarrow> (string \<times> pyval) list \<Rightarrow> world \<Rightarrow> (error + bool) \<times> world" where
  "p_index_file env self filename uri metadata w =
     (case fs w filename of
        None \<Rightarrow> (Inr False, logging ERROR File_does_not_exist [LStr filename] w)
      | Some bytes \<Rightarrow>
        (case json_dumps (encode env) (PDict metadata) of
           Inl e \<Rightarrow> (Inl e, w)
         | Inr md \<Rightarrow>
             (case session_request env
                     (PostUpload (endpoint self) (customer_id self) (corpus_id self) True
                        uri bytes md (post_headers self)) w of
                (Inl e, w1) \<Rightarrow> (Inl e, w1)
              | (Inr response, w1) \<Rightarrow>
                  if status_code response = 409 then
                    (if reindex self then
                       (case conflict_doc_id response of
                          Inl e \<Rightarrow> (Inl e, w1)
                        | Inr doc_id \<Rightarrow>
                            (case delete_doc env self (PStr doc_id) w1 of
                               (Inl e, w2) \<Rightarrow> (Inl e, w2)
                             | (Inr deleted, w2) \<Rightarrow>
                                 (case session_request env
                                         (PostUpload (endpoint self) (customer_id self)
                                            (corpus_id self) False uri [] md
                                            (post_headers self)) w2 of
                                    (Inl e, w3) \<Rightarrow> (Inl e, w3)
                                  | (Inr response2, w3) \<Rightarrow>
                                      if status_code response2 = 200
                                      then (Inr True,
                                            logging INFO REST_upload_successful_reindex [LStr uri] w3)
                                      else (Inr True,
                                            logging INFO REST_upload_reindex_failed
                                              [LStr uri, LInt (status_code response2),
                                               LStr (resp_text response2)] w3))))
                     else (Inr False, w1))
                  else if status_code response \<noteq> 200 then
                    (Inr False,
                     logging ERROR REST_upload_for_uri_failed
                       [LStr uri, LInt (status_code response), LStr (resp_text response)] w1)
                  else (Inr True, logging INFO REST_upload_successful [LStr uri] w1))))"

text \<open>
  The two tests on the decoded body in \<^verbatim>\<open>_index_document\<close>.  Lines 238 to 240:
  \<^verbatim>\<open>"status" in result and result["status"] and ("ALREADY_EXISTS" in
  result["status"]["code"] or ("CONFLICT" in result["status"]["code"] and "Indexing
  doesn't support updating documents" in result["status"]["statusDetail"]))\<close>,
  evaluated from the left with Python's short circuit.
\<close>

definition updates_unsupported :: string where
  "updates_unsupported =
     ''Indexing doesn'' @ [CHR 0x27] @ ''t support updating documents''"

definition already_exists :: "pyval \<Rightarrow> error + bool" where
  "already_exists result =
     (case py_in ''status'' result of
        Inl e \<Rightarrow> Inl e
      | Inr False \<Rightarrow> Inr False
      | Inr True \<Rightarrow>
          (case py_getitem result ''status'' of
             Inl e \<Rightarrow> Inl e
           | Inr st \<Rightarrow>
               if \<not> py_truthy st then Inr False
               else
                 (case py_getitem st ''code'' of
                    Inl e \<Rightarrow> Inl e
                  | Inr code \<Rightarrow>
                      (case py_in ''ALREADY_EXISTS'' code of
                         Inl e \<Rightarrow> Inl e
                       | Inr True \<Rightarrow> Inr True
                       | Inr False \<Rightarrow>
                           (case py_in ''CONFLICT'' code of
                              Inl e \<Rightarrow> Inl e
                            | Inr False \<Rightarrow> Inr False
                            | Inr True \<Rightarrow>
                                (case py_getitem st ''statusDetail'' of
                                   Inl e \<Rightarrow> Inl e
                                 | Inr detail \<Rightarrow> py_in updates_unsupported detail))))))"

text \<open>
  Line 249: \<^verbatim>\<open>"status" in result and result["status"] and "OK" in
  result["status"]["code"]\<close>.
\<close>

definition status_ok :: "pyval \<Rightarrow> error + bool" where
  "status_ok result =
     (case py_in ''status'' result of
        Inl e \<Rightarrow> Inl e
      | Inr False \<Rightarrow> Inr False
      | Inr True \<Rightarrow>
          (case py_getitem result ''status'' of
             Inl e \<Rightarrow> Inl e
           | Inr st \<Rightarrow>
               if \<not> py_truthy st then Inr False
               else
                 (case py_getitem st ''code'' of
                    Inl e \<Rightarrow> Inl e
                  | Inr code \<Rightarrow> py_in ''OK'' code)))"

text \<open>
  \<^verbatim>\<open>_index_document\<close> (lines 202 to 253).  The f-strings of lines 227, 242, 247 and
  252 read \<^verbatim>\<open>document['documentId']\<close>, which raises \<^verbatim>\<open>KeyError\<close> on a document
  without that key.
\<close>

definition index_request :: "indexer \<Rightarrow> (string \<times> pyval) list \<Rightarrow> pyval" where
  "index_request self document =
     PDict [(''customer_id'', PStr (customer_id self)),
            (''corpus_id'', PInt (corpus_id self)),
            (''document'', PDict document)]"

definition p_index_document ::
  "env \<Rightarrow> indexer \<Rightarrow> (string \<times> pyval) list \<Rightarrow> world \<Rightarrow> (error + bool) \<times> world" where
  "p_index_document env self document w =
     (case json_dumps (encode env) (index_request self document) of
        Inl e \<Rightarrow>
          (Inr False, logging INFO Cant_serialize_request [LVal (index_request self document)] w)
      | Inr data \<Rightarrow>
          (case session_request env (PostIndex (endpoint self) data (post_headers self)) w of
             (Inl e, w1) \<Rightarrow>
               (case py_getitem (PDict document) ''documentId'' of
                  Inl e' \<Rightarrow> (Inl e', w1)
                | Inr d \<Rightarrow>
                    (Inr False, logging INFO Exception_while_indexing [LErr e, LVal d] w1))
           | (Inr response, w1) \<Rightarrow>
               if status_code response \<noteq> 200
               then (Inr False,
                     logging ERROR REST_upload_failed
                       [LInt (status_code response), LStr (reason response),
                        LStr (resp_text response)] w1)
               else
                 (case resp_json response of
                    Inl e \<Rightarrow> (Inl e, w1)
                  | Inr result \<Rightarrow>
                      (case already_exists result of
                         Inl e \<Rightarrow> (Inl e, w1)
                       | Inr True \<Rightarrow>
                           (case py_getitem (PDict document) ''documentId'' of
                              Inl e \<Rightarrow> (Inl e, w1)
                            | Inr d \<Rightarrow>
                                if reindex self then
                                  (case delete_doc env self d
                                          (logging INFO Already_exists_reindexing [LVal d] w1) of
                                     (Inl e, w2) \<Rightarrow> (Inl e, w2)
                                   | (Inr deleted, w2) \<Rightarrow>
                                       (case json_dumps (encode env)
                                               (index_request self document) of
                                          Inl e \<Rightarrow> (Inl e, w2)
                                        | Inr data2 \<Rightarrow>
                                            (case session_request env
                                                    (PostIndex (endpoint self) data2
                                                       (post_headers self)) w2 of
                                               (Inl e, w3) \<Rightarrow> (Inl e, w3)
                                             | (Inr response2, w3) \<Rightarrow> (Inr True, w3))))
                                else
                                  (Inr False,
                                   logging INFO Already_exists_skipping [LVal d] w1))
                       | Inr False \<Rightarrow>
                           (case status_ok result of
                              Inl e \<Rightarrow> (Inl e, w1)
                            | Inr True \<Rightarrow> (Inr True, w1)
                            | Inr False \<Rightarrow>
                                (case py_getitem (PDict document) ''documentId'' of
                                   Inl e \<Rightarrow> (Inl e, w1)
                                 | Inr d \<Rightarrow>
                                     (Inr False,
                                      logging INFO Indexing_document_failed
                                        [LVal d, LVal result] w1)))))))"

section \<open>The PDF extractor\<close>

text \<open>
  \<^verbatim>\<open>_parse_pdf_file\<close> (lines 255 to 271).  Line 259 collects the titles, the
  comprehension of lines 264 to 270 the texts: an element is kept when
  \<^verbatim>\<open>(tables_only and type(t)==Table) or (not tables_only and type(t)!=Title)\<close>, and
  a kept table is summarized when \<^verbatim>\<open>self.summarize_tables\<close> holds.  Line 263
  builds the summarizer between the two, whether or not tables are to be summarized.
\<close>

definition pdf_title :: "element list \<Rightarrow> string" where
  "pdf_title elements =
     (let titles = map el_str (filter (\<lambda>x. el_type x = Title \<and> length (el_str x) > 10) elements)
      in if length titles > 0 then titles ! 0 else ''unknown'')"

definition kept :: "bool \<Rightarrow> element \<Rightarrow> bool" where
  "kept tables_only t =
     ((tables_only \<and> el_type t = Table) \<or> (\<not> tables_only \<and> el_type t \<noteq> Title))"

definition element_text ::
  "(string \<Rightarrow> error + string) \<Rightarrow> indexer \<Rightarrow> element \<Rightarrow> error + string" where
  "element_text summarize self t =
     (if el_type t = Table \<and> summarize_tables self
      then summarize (el_str t)
      else Inr (el_str t))"

fun pdf_texts ::
  "(string \<Rightarrow> error + string) \<Rightarrow> indexer \<Rightarrow> bool \<Rightarrow> element list \<Rightarrow> error + string list" where
  "pdf_texts summarize self tables_only [] = Inr []"
| "pdf_texts summarize self tables_only (t # ts) =
     (if kept tables_only t
      then (case element_text summarize self t of
              Inl e \<Rightarrow> Inl e
            | Inr s \<Rightarrow>
                (case pdf_texts summarize self tables_only ts of
                   Inl e \<Rightarrow> Inl e
                 | Inr ss \<Rightarrow> Inr (s # ss)))
      else pdf_texts summarize self tables_only ts)"

definition p_parse_pdf_file ::
  "env \<Rightarrow> indexer \<Rightarrow> string \<Rightarrow> bool \<Rightarrow> world \<Rightarrow> error + (string \<times> string list)" where
  "p_parse_pdf_file env self filename tables_only w =
     (case fs w filename of
        None \<Rightarrow> Inl FileNotFoundError
      | Some bytes \<Rightarrow>
          (case partition_pdf env bytes of
             Inl e \<Rightarrow> Inl e
           | Inr elements \<Rightarrow>
               (case table_summarizer env (openai_api_key self) of
                  Inl e \<Rightarrow> Inl e
                | Inr summarize \<Rightarrow>
                    (case pdf_texts summarize self tables_only elements of
                       Inl e \<Rightarrow> Inl e
                     | Inr texts \<Rightarrow> Inr (pdf_title elements, texts)))))"

section \<open>The document assembler\<close>

text \<open>
  \<^verbatim>\<open>index_segments\<close> (lines 339 to 356) in two steps: \<open>build_document\<close> is lines
  344 to 355, which fill the dict \<^verbatim>\<open>document\<close>, and \<open>index_segments\<close> passes it to
  \<^verbatim>\<open>index_document\<close> (line 356).  \<open>sections\<close> is the comprehension of line 353 over
  \<^verbatim>\<open>zip(texts, titles, metadatas)\<close>; its \<^verbatim>\<open>json.dumps\<close> and the one of line 355
  are not guarded.
\<close>

fun sections ::
  "env \<Rightarrow> (string \<times> string \<times> (string \<times> pyval) list) list \<Rightarrow> error + pyval list" where
  "sections env [] = Inr []"
| "sections env ((seg_text, title, md) # rest) =
     (case json_dumps (encode env) (PDict md) of
        Inl e \<Rightarrow> Inl e
      | Inr j \<Rightarrow>
          (case sections env rest of
             Inl e \<Rightarrow> Inl e
           | Inr ss \<Rightarrow>
               Inr (PDict [(''text'', PStr seg_text), (''title'', PStr title),
                           (''metadataJson'', PStr j)] # ss)))"

definition build_document ::
  "env \<Rightarrow> string \<Rightarrow> string list \<Rightarrow> string list option \<Rightarrow> (string \<times> pyval) list list option
     \<Rightarrow> (string \<times> pyval) list \<Rightarrow> string option \<Rightarrow> error + (string \<times> pyval) list" where
  "build_document env doc_id texts titles metadatas doc_metadata doc_title =
     (let titles1 = (case titles of None \<Rightarrow> map (\<lambda>_. []) texts | Some ts \<Rightarrow> ts);
          metadatas1 = (case metadatas of None \<Rightarrow> map (\<lambda>_. []) texts | Some ms \<Rightarrow> ms);
          document1 = [(''documentId'', PStr doc_id)];
          document2 = (case doc_title of
                         None \<Rightarrow> document1
                       | Some t \<Rightarrow> if length t > 0 then document1 @ [(''title'', PStr t)]
                                   else document1)
      in case sections env (zip texts (zip titles1 metadatas1)) of
           Inl e \<Rightarrow> Inl e
         | Inr ss \<Rightarrow>
             (let document3 = document2 @ [(''section'', PList ss)]
              in if doc_metadata \<noteq> []
                 then (case json_dumps (encode env) (PDict doc_metadata) of
                         Inl e \<Rightarrow> Inl e
                       | Inr j \<Rightarrow> Inr (document3 @ [(''metadataJson'', PStr j)]))
                 else Inr document3))"

text \<open>\<^verbatim>\<open>index_document\<close> (lines 358 to 363).\<close>

definition index_document ::
  "env \<Rightarrow> indexer \<Rightarrow> (string \<times> pyval) list \<Rightarrow> world \<Rightarrow> (error + bool) \<times> world" where
  "index_document env self document w = p_index_document env self document w"

definition index_segments ::
  "env \<Rightarrow> indexer \<Rightarrow> string \<Rightarrow> string list \<Rightarrow> string list option
     \<Rightarrow> (string \<times> pyval) list list option \<Rightarrow> (string \<times> pyval) list \<Rightarrow> string option
     \<Rightarrow> world \<Rightarrow> (error + bool) \<times> world" where
  "index_segments env self doc_id texts titles metadatas doc_metadata doc_title w =
     (case build_document env doc_id texts titles metadatas doc_metadata doc_title of
        Inl e \<Rightarrow> (Inl e, w)
      | Inr document \<Rightarrow> index_document env self document w)"

section \<open>The pipeline controller\<close>

text \<open>
  \<^verbatim>\<open>index_file\<close> (lines 365 to 398).  \<open>tables_pass\<close> is the \<^verbatim>\<open>try\<close> block of
  lines 389 to 392: it yields the exception the \<^verbatim>\<open>except\<close> clause of line 393 would
  catch, if any; the value \<^verbatim>\<open>index_segments\<close> returns is dropped there.
\<close>

definition tables_pass ::
  "env \<Rightarrow> indexer \<Rightarrow> string \<Rightarrow> (string \<times> pyval) list \<Rightarrow> world \<Rightarrow> error option \<times> world" where
  "tables_pass env self filename metadata w =
     (case p_parse_pdf_file env self filename True w of
        Inl e \<Rightarrow> (Some e, w)
      | Inr (title, texts) \<Rightarrow>
          (case index_segments env self (slugify env (filename @ ''_tables'')) texts None None
                  metadata (Some (''Tables for '' @ filename)) w of
             (Inl e, w1) \<Rightarrow> (Some e, w1)
           | (Inr succeeded, w1) \<Rightarrow> (None, w1)))"

definition index_file ::
  "env \<Rightarrow> indexer \<Rightarrow> string \<Rightarrow> string \<Rightarrow> (string \<times> pyval) list \<Rightarrow> world \<Rightarrow> (error + bool) \<times> world" where
  "index_file env self filename uri metadata w =
     (case fs w filename of
        None \<Rightarrow> (Inr False, logging ERROR File_does_not_exist [LStr filename] w)
      | Some bytes \<Rightarrow>
          if endswith filename ''.pdf'' \<and> get_file_size_in_MB env bytes \<ge> 50 then
            (case p_parse_pdf_file env self filename False w of
               Inl e \<Rightarrow> (Inl e, w)
             | Inr (title, texts) \<Rightarrow>
                 (case index_segments env self (slugify env filename) texts None None
                         metadata (Some title) w of
                    (Inl e, w1) \<Rightarrow> (Inl e, w1)
                  | (Inr succeeded, w1) \<Rightarrow>
                      (Inr succeeded, logging INFO Indexing_text_only [LStr filename] w1)))
          else if summarize_tables self \<and> endswith filename ''.pdf'' then
            (case tables_pass env self filename metadata w of
               (Some e, w1) \<Rightarrow>
                 (Inr False, logging INFO Failed_to_index [LStr filename, LErr e] w1)
             | (None, w1) \<Rightarrow> p_index_file env self filename uri metadata w1)
          else p_index_file env self filename uri metadata w)"

text \<open>
  \<^verbatim>\<open>url_triggers_download\<close> (lines 66 to 85) asks the browser, and swallows every
  exception of the navigation.
\<close>

definition url_triggers_download :: "env \<Rightarrow> string \<Rightarrow> bool" where
  "url_triggers_download env url = download_triggered env url"

text \<open>
  \<^verbatim>\<open>fetch_page_contents\<close> (lines 87 to 129): \<^verbatim>\<open>content\<close>, \<^verbatim>\<open>out_url\<close> and
  \<^verbatim>\<open>links\<close> keep their initial values \<^verbatim>\<open>''\<close>, \<^verbatim>\<open>url\<close> and \<^verbatim>\<open>[]\<close> unless the
  load got far enough to assign them.  Closing the page and relaunching a lost browser
  are taken not to raise.
\<close>

definition fetch_page_contents ::
  "env \<Rightarrow> string \<Rightarrow> world \<Rightarrow> (string \<times> string \<times> string list) \<times> world" where
  "fetch_page_contents env url w =
     (case page_load env url of
        Loaded content out_url links \<Rightarrow> ((content, out_url, links), w)
      | LinksFailed content out_url e \<Rightarrow>
          ((content, out_url, []),
           if e = PlaywrightTimeoutError then logging INFO Page_loading_timed_out [LStr url] w
           else logging INFO Page_loading_failed [LStr url, LErr e] w)
      | LoadFailed e \<Rightarrow>
          (([], url, []),
           if e = PlaywrightTimeoutError then logging INFO Page_loading_timed_out [LStr url] w
           else logging INFO Page_loading_failed [LStr url, LErr e] w))"

text \<open>
  \<^verbatim>\<open>index_url\<close> (lines 273 to 337).  \<open>extract_page\<close> is the body of the \<^verbatim>\<open>try\<close> of
  lines 317 to 328 after the length test: it caches the detected language, and yields
  \<^verbatim>\<open>url\<close>, \<^verbatim>\<open>parts\<close> and \<^verbatim>\<open>extracted_title\<close>, or the exception raised
  together with the value \<^verbatim>\<open>url\<close> has at that point (line 325 reassigns it).
  \<^verbatim>\<open>content\<close> is a string there, never \<^verbatim>\<open>None\<close>, so that the test of line 318
  is the length test.  On the download path nothing is guarded.  There \<^verbatim>\<open>content\<close>,
  read by line 302, is a local variable that only line 317 assigns, and \<^verbatim>\<open>parts\<close>,
  read by line 335, is assigned by none of the suffix branches when no suffix matches:
  both reads raise \<^verbatim>\<open>UnboundLocalError\<close>.
\<close>

definition extract_page ::
  "env \<Rightarrow> indexer \<Rightarrow> string \<Rightarrow> string \<Rightarrow> string \<Rightarrow> world
     \<Rightarrow> ((error \<times> string) + (string \<times> string list \<times> string option)) \<times> world" where
  "extract_page env self url content actual_url w =
     (case (case detected_language w of
              Some l \<Rightarrow> Inr (l, w)
            | None \<Rightarrow>
                (case body_get_text env content of
                   Inl e \<Rightarrow> Inl e
                 | Inr body_text \<Rightarrow>
                     (case detect_language env body_text of
                        Inl e \<Rightarrow> Inl e
                      | Inr l \<Rightarrow>
                          Inr (l, logging INFO Detected_language [LStr l]
                                    (w\<lparr>detected_language := Some l\<rparr>))))) of
        Inl e \<Rightarrow> (Inl (e, url), w)
      | Inr (l, w1) \<Rightarrow>
          (case get_content_and_title env content actual_url l (remove_code self) of
             Inl e \<Rightarrow> (Inl (e, actual_url), w1)
           | Inr (seg_text, extracted_title) \<Rightarrow>
               (Inr (actual_url, [seg_text], extracted_title),
                logging INFO Retrieving_content_took [] w1)))"

definition index_url ::
  "env \<Rightarrow> indexer \<Rightarrow> string \<Rightarrow> (string \<times> pyval) list \<Rightarrow> world \<Rightarrow> (error + bool) \<times> world" where
  "index_url env self url0 metadata w =
     (case py_split url0 ''#'' of
        Inl e \<Rightarrow> (Inl e, w)
      | Inr pieces \<Rightarrow>
      (case py_index pieces 0 of
        Inl e \<Rightarrow> (Inl e, w)
      | Inr url \<Rightarrow>
          if url_triggers_download env url then
            (case session_request env (GetStream url) w of
               (Inl e, w1) \<Rightarrow> (Inl e, w1)
             | (Inr response, w1) \<Rightarrow>
                 if status_code response = 200 then
                   (let w2 = logging INFO File_downloaded [LStr ''tmpfile'']
                               (w1\<lparr>fs := (fs w1)(''tmpfile'' \<mapsto> resp_content response)\<rparr>)
                    in if endswith url ''.pdf'' then
                         (case p_parse_pdf_file env self ''tmpfile'' False w2 of
                            Inl e \<Rightarrow> (Inl e, w2)
                          | Inr (extracted_title, parts) \<Rightarrow>
                              index_segments env self (slugify env url) parts None None
                                metadata (Some extracted_title) w2)
                       else if endswith url ''.md'' \<or> endswith url ''.rst''
                               \<or> endswith (lower url) ''.ipynb'' then
                         (Inl UnboundLocalError, w2)
                       else (Inl UnboundLocalError, w2))
                 else
                   (Inr False,
                    logging INFO Failed_to_download [LInt (status_code response)] w1))
          else
            (case fetch_page_contents env url w of
               ((content, actual_url, links), w1) \<Rightarrow>
                 if length content < 3 then (Inr False, w1)
                 else
                   (case extract_page env self url content actual_url w1 of
                      (Inl (e, url1), w2) \<Rightarrow>
                        (Inr False, logging INFO Failed_to_crawl [LStr url1, LErr e] w2)
                    | (Inr (url1, parts, extracted_title), w2) \<Rightarrow>
                        index_segments env self (slugify env url1) parts None None
                          metadata extracted_title w2))))"

section \<open>Notions used to state the properties\<close>

text \<open>The delete call for a document id, and the index call for a document.\<close>

definition delete_call :: "env \<Rightarrow> indexer \<Rightarrow> pyval \<Rightarrow> request" where
  "delete_call env self doc_id =
     PostDeleteDoc (endpoint self)
       (encode env (PDict [(''customer_id'', PStr (customer_id self)),
                           (''corpus_id'', PInt (corpus_id self)),
                           (''document_id'', doc_id)]))
       (post_headers self)"

definition index_call :: "env \<Rightarrow> indexer \<Rightarrow> (string \<times> pyval) list \<Rightarrow> request" where
  "index_call env self document =
     PostIndex (endpoint self) (encode env (index_request self document)) (post_headers self)"

definition upload_call ::
  "env \<Rightarrow> indexer \<Rightarrow> bool \<Rightarrow> string \<Rightarrow> string \<Rightarrow> (string \<times> pyval) list \<Rightarrow> request" where
  "upload_call env self dflag uri bytes metadata =
     PostUpload (endpoint self) (customer_id self) (corpus_id self) dflag uri bytes
       (encode env (PDict metadata)) (post_headers self)"

text \<open>
  A decoded body that says the document already exists: a JSON object whose
  \<^verbatim>\<open>status\<close> is an object whose \<^verbatim>\<open>code\<close> is a string holding
  \<^verbatim>\<open>ALREADY_EXISTS\<close>, or holding \<^verbatim>\<open>CONFLICT\<close> while its \<^verbatim>\<open>statusDetail\<close> is a
  string holding the sentence that updates are unsupported.
\<close>

definition says_already_exists :: "pyval \<Rightarrow> bool" where
  "says_already_exists result =
     (case result of
        PDict kvs \<Rightarrow>
          (case map_of kvs ''status'' of
             Some (PDict st) \<Rightarrow>
               (case map_of st ''code'' of
                  Some (PStr c) \<Rightarrow>
                    substring ''ALREADY_EXISTS'' c \<or>
                    (substring ''CONFLICT'' c \<and>
                     (case map_of st ''statusDetail'' of
                        Some (PStr d) \<Rightarrow> substring updates_unsupported d
                      | _ \<Rightarrow> False))
                | _ \<Rightarrow> False)
           | _ \<Rightarrow> False)
      | _ \<Rightarrow> False)"

text \<open>A decoded body that carries the status code \<^verbatim>\<open>OK\<close>.\<close>

definition says_ok :: "pyval \<Rightarrow> bool" where
  "says_ok result =
     (case result of
        PDict kvs \<Rightarrow>
          (case map_of kvs ''status'' of
             Some (PDict st) \<Rightarrow>
               (case map_of st ''code'' of Some (PStr c) \<Rightarrow> c = ''OK'' | _ \<Rightarrow> False)
           | _ \<Rightarrow> False)
      | _ \<Rightarrow> False)"

text \<open>
  A decoded body of another shape: a JSON object with no \<^verbatim>\<open>status\<close>, or with a
  \<^verbatim>\<open>status\<close> that is null or an empty object, or with a status object whose
  \<^verbatim>\<open>code\<close> is a string holding none of \<^verbatim>\<open>ALREADY_EXISTS\<close>, \<^verbatim>\<open>CONFLICT\<close> and
  \<^verbatim>\<open>OK\<close>.
\<close>

definition other_shape :: "pyval \<Rightarrow> bool" where
  "other_shape result =
     (case result of
        PDict kvs \<Rightarrow>
          (case map_of kvs ''status'' of
             None \<Rightarrow> True
           | Some PNone \<Rightarrow> True
           | Some (PDict st) \<Rightarrow>
               st = [] \<or>
               (case map_of st ''code'' of
                  Some (PStr c) \<Rightarrow>
                    \<not> substring ''ALREADY_EXISTS'' c \<and> \<not> substring ''CONFLICT'' c
                    \<and> \<not> substring ''OK'' c
                | _ \<Rightarrow> False)
           | _ \<Rightarrow> False)
      | _ \<Rightarrow> False)"

text \<open>
  The title and the selection of elements as the specification words them: the first
  element typed as a title whose text is longer than 10 characters, else
  \<^verbatim>\<open>unknown\<close>; the table elements in tables-only mode, the elements that are not
  titles otherwise.
\<close>

definition first_long_title :: "element list \<Rightarrow> string" where
  "first_long_title elements =
     (case find (\<lambda>x. el_type x = Title \<and> length (el_str x) > 10) elements of
        Some x \<Rightarrow> el_str x
      | None \<Rightarrow> ''unknown'')"

definition selected :: "bool \<Rightarrow> element list \<Rightarrow> element list" where
  "selected tables_only elements =
     (if tables_only then filter (\<lambda>t. el_type t = Table) elements
      else filter (\<lambda>t. el_type t \<noteq> Title) elements)"

text \<open>The segment built for a text when titles and metadatas are omitted.\<close>

definition default_segment :: "env \<Rightarrow> string \<Rightarrow> pyval" where
  "default_segment env seg_text =
     PDict [(''text'', PStr seg_text), (''title'', PStr []),
            (''metadataJson'', PStr (encode env (PDict [])))]"

text \<open>A URL without its fragment: what stands before the first \<^verbatim>\<open>#\<close>.\<close>

definition strip_fragment :: "string \<Rightarrow> string" where
  "strip_fragment url = takeWhile (\<lambda>c. c \<noteq> CHR ''#'') url"



section \<open>Concrete servers, indexers and worlds\<close>

definition mk_response :: "int \<Rightarrow> error + pyval \<Rightarrow> response" where
  "mk_response code body =
     \<lparr>status_code = code, reason = ''reason'', resp_text = ''text'', resp_json = body,
      resp_content = ''%PDF''\<rparr>"

definition status_body :: "string \<Rightarrow> pyval" where
  "status_body code = PDict [(''status'', PDict [(''code'', PStr code)])]"

text \<open>A remote side that answers the n-th call with the n-th entry, and 200 OK after.\<close>

definition scripted :: "(error + response) list \<Rightarrow> request list \<Rightarrow> request \<Rightarrow> error + response" where
  "scripted answers history rq =
     (if length history < length answers then answers ! length history
      else Inr (mk_response 200 (Inr (status_body ''OK''))))"

definition sample_elements :: "element list" where
  "sample_elements =
     [\<lparr>el_type = Title, el_str = ''Intro''\<rparr>,
      \<lparr>el_type = NarrativeText, el_str = ''Some words.''\<rparr>,
      \<lparr>el_type = Title, el_str = ''Annual report''\<rparr>,
      \<lparr>el_type = Table, el_str = ''a b c''\<rparr>,
      \<lparr>el_type = Title, el_str = ''Second long title''\<rparr>]"

definition mk_env :: "(error + response) list \<Rightarrow> env" where
  "mk_env answers =
     \<lparr>http = scripted answers,
      encode = (\<lambda>v. ''json''),
      slugify = (\<lambda>s. ''slug-'' @ s),
      partition_pdf = (\<lambda>bytes. Inr sample_elements),
      table_summarizer = (\<lambda>key. case key of
                              None \<Rightarrow> Inl (LibraryError ''no OpenAI key'')
                            | Some k \<Rightarrow> Inr (\<lambda>s. Inr (''summary of '' @ s))),
      get_file_size_in_MB = (\<lambda>bytes. real (length bytes)),
      download_triggered = (\<lambda>url. endswith url ''.pdf'' \<or> endswith url ''.md''),
      page_load = (\<lambda>url. if url = ''http://a/short'' then Loaded ''ab'' url []
                          else Loaded ''<html><body>hello</body></html>'' url []),
      body_get_text = (\<lambda>content. Inr content),
      detect_language = (\<lambda>t. Inr ''en''),
      get_content_and_title = (\<lambda>content url lang rc. Inr (content, Some ''A title''))\<rparr>"

definition self0 :: indexer where
  "self0 =
     \<lparr>endpoint = ''api.vectara.io'', customer_id = ''42'', corpus_id = 7, api_key = ''key'',
      reindex = True, remove_code = True, summarize_tables = False,
      openai_api_key = Some ''sk-key''\<rparr>"

definition w0 :: world where
  "w0 = \<lparr>trace = [], logs = [], fs = [''a.pdf'' \<mapsto> ''%PDF-1.4''], detected_language = None\<rparr>"

definition doc0 :: "(string \<times> pyval) list" where
  "doc0 = [(''documentId'', PStr ''doc-1''), (''section'', PList [])]"

definition exists_answers :: "int \<Rightarrow> (error + response) list" where
  "exists_answers code =
     [Inr (mk_response code (Inr (status_body ''ALREADY_EXISTS''))),
      Inr (mk_response 500 (Inl JSONDecodeError)),
      Inr (mk_response 500 (Inl JSONDecodeError))]"

definition conflict_response :: response where
  "conflict_response =
     mk_response 409
       (Inr (PDict [(''details'',
                     PStr (''Indexing doesn'' @ [CHR 0x27] @ ''t support updating documents. ''
                           @ ''Found document id '' @ [CHR 0x27] @ ''doc-9'' @ [CHR 0x27]
                           @ '' in the corpus.''))]))"

definition conflict_answers :: "(error + response) list" where
  "conflict_answers =
     [Inr conflict_response,
      Inr (mk_response 500 (Inl JSONDecodeError)),
      Inr (mk_response 503 (Inl JSONDecodeError))]"


definition tables_indexer :: indexer where
  "tables_indexer = self0\<lparr>summarize_tables := True\<rparr>"

text \<open>
  What \<^verbatim>\<open>slugify\<close> makes of a name of ASCII letters and digits with single other
  characters between them: lower case, each other character a hyphen.
\<close>

definition slug_char :: "char \<Rightarrow> char" where
  "slug_char c =
     (if lower_char c \<in> set ''abcdefghijklmnopqrstuvwxyz0123456789'' then lower_char c
      else CHR ''-'')"

definition ascii_slug :: "string \<Rightarrow> string" where
  "ascii_slug s = map slug_char s"

text \<open>An encoding that writes an index request as the id of its document.\<close>

definition document_id_of :: "pyval \<Rightarrow> string" where
  "document_id_of v =
     (case py_getitem v ''document'' of
        Inr document \<Rightarrow>
          (case py_getitem document ''documentId'' of Inr (PStr i) \<Rightarrow> i | _ \<Rightarrow> ''json'')
      | Inl e \<Rightarrow> ''json'')"

text \<open>
  A remote side that refuses the first call with status 500 and accepts the second, with
  that slug and that encoding.
\<close>

definition refuse_then_accept :: env where
  "refuse_then_accept =
     (mk_env [Inr (mk_response 500 (Inl JSONDecodeError)),
              Inr (mk_response 200 (Inl JSONDecodeError))])
       \<lparr>encode := document_id_of, slugify := ascii_slug\<rparr>"

text \<open>The indexer that \<^verbatim>\<open>__init__\<close> builds from a configuration without an OpenAI key.\<close>

definition no_key_indexer :: indexer where
  "no_key_indexer =
     fst (new_indexer \<lparr>cfg_summarize_tables = Some True, cfg_openai_api_key = None\<rparr>
            ''api.vectara.io'' ''42'' 7 ''key'' True True w0)"

definition accept_all :: env where
  "accept_all = mk_env []"

text \<open>An environment whose PDF partition raises, and one whose answers cannot be decoded.\<close>

definition bad_pdf_env :: env where
  "bad_pdf_env = accept_all\<lparr>partition_pdf := (\<lambda>bytes. Inl (LibraryError ''not a PDF''))\<rparr>"

definition garbled_env :: env where
  "garbled_env = mk_env [Inr (mk_response 200 (Inl JSONDecodeError))]"

section \<open>Deleting a document\<close>

lemma map_of_key_in: "map_of kvs k = Some v \<Longrightarrow> k \<in> fst ` set kvs"
  by (metis domI dom_map_of_conv_image_fst)

lemma map_of_key_notin: "map_of kvs k = None \<Longrightarrow> k \<notin> fst ` set kvs"
  by (simp add: map_of_eq_None_iff)

text \<open>
  C10.  When the delete endpoint answers, \<open>delete_doc\<close> returns \<open>True\<close> exactly when
  the status code is 200; for every other status code it returns \<open>False\<close> after
  logging the status, the reason and the body.  It makes exactly one call, whatever the
  answer: nothing is retried and the body is not read.
\<close>

theorem delete_doc_true_iff_200:
  assumes "http env (trace w) (delete_call env self (PStr doc_id)) = Inr r"
  shows "delete_doc env self (PStr doc_id) w =
           (Inr (status_code r = 200),
            if status_code r = 200
            then w\<lparr>trace := trace w @ [delete_call env self (PStr doc_id)]\<rparr>
            else logging ERROR Delete_request_failed
                   [LVal (PStr doc_id), LInt (status_code r), LStr (reason r), LStr (resp_text r)]
                   (w\<lparr>trace := trace w @ [delete_call env self (PStr doc_id)]\<rparr>))"
  using assms
  by (simp add: delete_doc_def json_dumps_def session_request_def delete_call_def)

theorem delete_doc_true_iff_200_witness:
  "http (mk_env [Inr (mk_response 404 (Inl JSONDecodeError))]) (trace w0)
        (delete_call (mk_env [Inr (mk_response 404 (Inl JSONDecodeError))]) self0 (PStr ''doc-1''))
     = Inr (mk_response 404 (Inl JSONDecodeError))
   \<and> fst (delete_doc (mk_env [Inr (mk_response 404 (Inl JSONDecodeError))]) self0 (PStr ''doc-1'') w0)
     = Inr False
   \<and> trace (snd (delete_doc (mk_env [Inr (mk_response 404 (Inl JSONDecodeError))]) self0
                   (PStr ''doc-1'') w0))
     = [PostDeleteDoc ''api.vectara.io'' ''json'' (''key'', ''42'')]
   \<and> logs (snd (delete_doc (mk_env [Inr (mk_response 404 (Inl JSONDecodeError))]) self0
                   (PStr ''doc-1'') w0))
     = [(ERROR, Delete_request_failed,
         [LVal (PStr ''doc-1''), LInt 404, LStr ''reason'', LStr ''text''])]"
proof -
  have h: "http (mk_env [Inr (mk_response 404 (Inl JSONDecodeError))]) (trace w0)
        (delete_call (mk_env [Inr (mk_response 404 (Inl JSONDecodeError))]) self0 (PStr ''doc-1''))
     = Inr (mk_response 404 (Inl JSONDecodeError))"
    by (simp add: mk_env_def scripted_def w0_def)
  show ?thesis
    using h delete_doc_true_iff_200 [OF h]
    by (simp add: mk_response_def delete_call_def mk_env_def self0_def w0_def logging_def
        post_headers_def)
qed

section \<open>Indexing a document\<close>

lemma says_already_exists_sound:
  assumes "says_already_exists result"
  shows "already_exists result = Inr True"
  using assms
  unfolding says_already_exists_def already_exists_def
  by (auto split: pyval.splits option.splits bool.splits simp: map_of_key_in)

lemma says_ok_sound:
  assumes "says_ok result"
  shows "already_exists result = Inr False" and "status_ok result = Inr True"
  using assms
  unfolding says_ok_def already_exists_def status_ok_def
  by (auto split: pyval.splits option.splits bool.splits simp: map_of_key_in)

lemma other_shape_sound:
  assumes "other_shape result"
  shows "already_exists result = Inr False" and "status_ok result = Inr False"
  using assms
  unfolding other_shape_def already_exists_def status_ok_def
  by (auto split: pyval.splits option.splits bool.splits
      simp: map_of_key_in map_of_key_notin)

lemma serializable_documentId:
  assumes "serializable (index_request self document)"
    and "map_of document ''documentId'' = Some d"
  shows "serializable d"
  using assms map_of_SomeD [OF assms(2)]
  by (force simp: index_request_def)

text \<open>
  C1 (as amended).  Let the index call be answered with status 200 and a body that says
  the document already exists.  With reindex enabled, and the delete call and the
  resubmission both answered (with any response), \<open>_index_document\<close> returns \<open>True\<close>
  and has made exactly three calls: the index call, one delete call for the id of the
  document, and the same index call again; the answer to the resubmission is not read.
  With reindex disabled it returns \<open>False\<close> and has made the index call only.
\<close>

theorem reindex_delete_then_resubmit:
  assumes "serializable (index_request self document)"
    and "map_of document ''documentId'' = Some d"
    and "http env (trace w) (index_call env self document) = Inr r"
    and "status_code r = 200"
    and "resp_json r = Inr result"
    and "says_already_exists result"
  shows "(reindex self \<longrightarrow>
           http env (trace w @ [index_call env self document]) (delete_call env self d) = Inr r2 \<longrightarrow>
           http env (trace w @ [index_call env self document, delete_call env self d])
                (index_call env self document) = Inr r3 \<longrightarrow>
           fst (p_index_document env self document w) = Inr True \<and>
           trace (snd (p_index_document env self document w)) =
             trace w @ [index_call env self document, delete_call env self d,
                        index_call env self document])
       \<and> (\<not> reindex self \<longrightarrow>
           fst (p_index_document env self document w) = Inr False \<and>
           trace (snd (p_index_document env self document w)) =
             trace w @ [index_call env self document])"
proof -
  have sd: "serializable d"
    using assms(1,2) by (rule serializable_documentId)
  have ae: "already_exists result = Inr True"
    using assms(6) by (rule says_already_exists_sound)
  have on: "fst (p_index_document env self document w) = Inr True \<and>
           trace (snd (p_index_document env self document w)) =
             trace w @ [index_call env self document, delete_call env self d,
                        index_call env self document]"
    if "reindex self"
      and "http env (trace w @ [index_call env self document]) (delete_call env self d) = Inr r2"
      and "http env (trace w @ [index_call env self document, delete_call env self d])
                (index_call env self document) = Inr r3"
    using that assms(1-5) ae sd
    by (simp add: p_index_document_def delete_doc_def json_dumps_def session_request_def
        index_call_def delete_call_def logging_def)
  have off: "fst (p_index_document env self document w) = Inr False \<and>
           trace (snd (p_index_document env self document w)) =
             trace w @ [index_call env self document]"
    if "\<not> reindex self"
    using that assms(1-5) ae
    by (simp add: p_index_document_def json_dumps_def session_request_def
        index_call_def logging_def)
  from on off show ?thesis by blast
qed

theorem reindex_delete_then_resubmit_witness:
  "says_already_exists (status_body ''ALREADY_EXISTS'')
   \<and> reindex self0
   \<and> fst (p_index_document (mk_env (exists_answers 200)) self0 doc0 w0) = Inr True
   \<and> trace (snd (p_index_document (mk_env (exists_answers 200)) self0 doc0 w0)) =
       [PostIndex ''api.vectara.io'' ''json'' (''key'', ''42''),
        PostDeleteDoc ''api.vectara.io'' ''json'' (''key'', ''42''),
        PostIndex ''api.vectara.io'' ''json'' (''key'', ''42'')]
   \<and> \<not> reindex (self0\<lparr>reindex := False\<rparr>)
   \<and> fst (p_index_document (mk_env (exists_answers 200)) (self0\<lparr>reindex := False\<rparr>) doc0 w0)
       = Inr False
   \<and> trace (snd (p_index_document (mk_env (exists_answers 200)) (self0\<lparr>reindex := False\<rparr>)
                    doc0 w0)) =
       [PostIndex ''api.vectara.io'' ''json'' (''key'', ''42'')]"
proof -
  let ?env = "mk_env (exists_answers 200)"
  let ?r = "mk_response 200 (Inr (status_body ''ALREADY_EXISTS''))"
  let ?r2 = "mk_response 500 (Inl JSONDecodeError)"
  have ser: "serializable (index_request s doc0)" for s
    by (simp add: index_request_def doc0_def)
  have id: "map_of doc0 ''documentId'' = Some (PStr ''doc-1'')"
    by (simp add: doc0_def)
  have first: "http ?env (trace w0) (index_call ?env s doc0) = Inr ?r" for s
    by (simp add: mk_env_def scripted_def exists_answers_def w0_def)
  have ok: "status_code ?r = 200" and body: "resp_json ?r = Inr (status_body ''ALREADY_EXISTS'')"
    by (simp_all add: mk_response_def)
  have ex: "says_already_exists (status_body ''ALREADY_EXISTS'')"
    by (simp add: says_already_exists_def status_body_def)
  have second: "http ?env (trace w0 @ [index_call ?env self0 doc0])
                  (delete_call ?env self0 (PStr ''doc-1'')) = Inr ?r2"
    by (simp add: mk_env_def scripted_def exists_answers_def w0_def)
  have third: "http ?env (trace w0 @ [index_call ?env self0 doc0,
                                       delete_call ?env self0 (PStr ''doc-1'')])
                  (index_call ?env self0 doc0) = Inr ?r2"
    by (simp add: mk_env_def scripted_def exists_answers_def w0_def)
  have on: "reindex self0" and off: "\<not> reindex (self0\<lparr>reindex := False\<rparr>)"
    by (simp_all add: self0_def)
  from reindex_delete_then_resubmit [OF ser id first ok body ex, of self0 ?r2 ?r2]
    on second third
  have a: "fst (p_index_document ?env self0 doc0 w0) = Inr True \<and>
           trace (snd (p_index_document ?env self0 doc0 w0)) =
             trace w0 @ [index_call ?env self0 doc0, delete_call ?env self0 (PStr ''doc-1''),
                         index_call ?env self0 doc0]"
    by blast
  from reindex_delete_then_resubmit [OF ser id first ok body ex,
      of "self0\<lparr>reindex := False\<rparr>" ?r2 ?r2] off
  have b: "fst (p_index_document ?env (self0\<lparr>reindex := False\<rparr>) doc0 w0) = Inr False \<and>
           trace (snd (p_index_document ?env (self0\<lparr>reindex := False\<rparr>) doc0 w0)) =
             trace w0 @ [index_call ?env (self0\<lparr>reindex := False\<rparr>) doc0]"
    by blast
  from a b ex on off show ?thesis
    by (simp add: index_call_def delete_call_def mk_env_def self0_def w0_def post_headers_def)
qed

text \<open>
  The claim as stated speaks of every 2xx answer.  An answer with status 201 whose body
  says the document already exists, with reindex enabled: \<open>_index_document\<close> returns
  \<open>False\<close> and makes no delete call.
\<close>

theorem reindex_201_counterexample:
  "http (mk_env (exists_answers 201)) (trace w0) (index_call (mk_env (exists_answers 201)) self0 doc0)
     = Inr (mk_response 201 (Inr (status_body ''ALREADY_EXISTS'')))
   \<and> says_already_exists (status_body ''ALREADY_EXISTS'')
   \<and> reindex self0
   \<and> fst (p_index_document (mk_env (exists_answers 201)) self0 doc0 w0) = Inr False
   \<and> trace (snd (p_index_document (mk_env (exists_answers 201)) self0 doc0 w0)) =
       [PostIndex ''api.vectara.io'' ''json'' (''key'', ''42'')]"
  by (simp add: p_index_document_def json_dumps_def session_request_def index_request_def
      index_call_def mk_env_def scripted_def exists_answers_def mk_response_def doc0_def
      w0_def self0_def logging_def post_headers_def says_already_exists_def status_body_def)

text \<open>
  An answer with any status other than 200 ends \<open>_index_document\<close> at line 235,
  whatever its body says: \<open>False\<close>, and no call after the index call.
\<close>

lemma index_document_not_200:
  assumes "serializable (index_request self document)"
    and "http env (trace w) (index_call env self document) = Inr r"
    and "status_code r \<noteq> 200"
  shows "fst (p_index_document env self document w) = Inr False
       \<and> trace (snd (p_index_document env self document w))
           = trace w @ [index_call env self document]"
  using assms
  by (simp add: p_index_document_def json_dumps_def session_request_def index_call_def
      logging_def)

text \<open>
  C5 (as amended).  For a document that has a \<^verbatim>\<open>documentId\<close>, \<open>_index_document\<close>
  returns \<open>False\<close> when the index call raises and when it is answered with a status
  other than 200; on status 200 it returns \<open>True\<close> when the body carries the status code
  \<^verbatim>\<open>OK\<close>, and \<open>False\<close> when the body is a JSON object of another shape (no status,
  an empty status, or a status code holding none of the recognized words).
\<close>

theorem index_document_by_response:
  assumes "map_of document ''documentId'' = Some d"
  shows "(http env (trace w) (index_call env self document) = Inl e \<longrightarrow>
            fst (p_index_document env self document w) = Inr False)
       \<and> (http env (trace w) (index_call env self document) = Inr r \<and> status_code r \<noteq> 200 \<longrightarrow>
            fst (p_index_document env self document w) = Inr False)
       \<and> (serializable (index_request self document) \<and>
          http env (trace w) (index_call env self document) = Inr r \<and> status_code r = 200 \<and>
          resp_json r = Inr result \<and> says_ok result \<longrightarrow>
            fst (p_index_document env self document w) = Inr True)
       \<and> (http env (trace w) (index_call env self document) = Inr r \<and> status_code r = 200 \<and>
          resp_json r = Inr result \<and> other_shape result \<longrightarrow>
            fst (p_index_document env self document w) = Inr False)"
proof -
  have raised: "fst (p_index_document env self document w) = Inr False"
    if "http env (trace w) (index_call env self document) = Inl e"
    using that assms
    by (simp add: p_index_document_def json_dumps_def session_request_def index_call_def)
  have refused: "fst (p_index_document env self document w) = Inr False"
    if "http env (trace w) (index_call env self document) = Inr r" and "status_code r \<noteq> 200"
    using that
    by (simp add: p_index_document_def json_dumps_def session_request_def index_call_def)
  have accepted: "fst (p_index_document env self document w) = Inr True"
    if "serializable (index_request self document)"
      and "http env (trace w) (index_call env self document) = Inr r"
      and "status_code r = 200" and "resp_json r = Inr result" and "says_ok result"
    using that says_ok_sound [OF that(5)]
    by (simp add: p_index_document_def json_dumps_def session_request_def index_call_def)
  have other: "fst (p_index_document env self document w) = Inr False"
    if "http env (trace w) (index_call env self document) = Inr r"
      and "status_code r = 200" and "resp_json r = Inr result" and "other_shape result"
    using that assms other_shape_sound [OF that(4)]
    by (simp add: p_index_document_def json_dumps_def session_request_def index_call_def)
  from raised refused accepted other show ?thesis by blast
qed

theorem index_document_by_response_witness:
  "fst (p_index_document (mk_env [Inl TransportError]) self0 doc0 w0) = Inr False
   \<and> fst (p_index_document (mk_env [Inr (mk_response 500 (Inl JSONDecodeError))]) self0 doc0 w0)
       = Inr False
   \<and> says_ok (status_body ''OK'')
   \<and> fst (p_index_document (mk_env [Inr (mk_response 200 (Inr (status_body ''OK'')))]) self0
            doc0 w0) = Inr True
   \<and> other_shape (PDict [])
   \<and> fst (p_index_document (mk_env [Inr (mk_response 200 (Inr (PDict [])))]) self0 doc0 w0)
       = Inr False"
proof -
  have id: "map_of doc0 ''documentId'' = Some (PStr ''doc-1'')"
    by (simp add: doc0_def)
  have ser: "serializable (index_request self0 doc0)"
    by (simp add: index_request_def doc0_def)
  have answer: "http (mk_env [a]) (trace w0) (index_call (mk_env [a]) self0 doc0) = a" for a
    by (simp add: mk_env_def scripted_def w0_def)
  have st: "status_code (mk_response c b) = c" and js: "resp_json (mk_response c b) = b" for c b
    by (simp_all add: mk_response_def)
  have sok: "says_ok (status_body ''OK'')"
    by (simp add: says_ok_def status_body_def)
  have oth: "other_shape (PDict [])"
    by (simp add: other_shape_def)
  from index_document_by_response [OF id, of "mk_env [Inl TransportError]" w0 self0
      TransportError] answer
  have a: "fst (p_index_document (mk_env [Inl TransportError]) self0 doc0 w0) = Inr False"
    by blast
  from index_document_by_response [OF id,
      of "mk_env [Inr (mk_response 500 (Inl JSONDecodeError))]" w0 self0 _
         "mk_response 500 (Inl JSONDecodeError)"] answer st
  have b: "fst (p_index_document (mk_env [Inr (mk_response 500 (Inl JSONDecodeError))]) self0
                  doc0 w0) = Inr False"
    by simp
  from index_document_by_response [OF id,
      of "mk_env [Inr (mk_response 200 (Inr (status_body ''OK'')))]" w0 self0 _
         "mk_response 200 (Inr (status_body ''OK''))" "status_body ''OK''"] answer st js ser sok
  have c: "fst (p_index_document (mk_env [Inr (mk_response 200 (Inr (status_body ''OK'')))])
                  self0 doc0 w0) = Inr True"
    by simp
  from index_document_by_response [OF id,
      of "mk_env [Inr (mk_response 200 (Inr (PDict [])))]" w0 self0 _
         "mk_response 200 (Inr (PDict []))" "PDict []"] answer st js oth
  have d: "fst (p_index_document (mk_env [Inr (mk_response 200 (Inr (PDict [])))]) self0
                  doc0 w0) = Inr False"
    by simp
  from a b c d sok oth show ?thesis by simp
qed

text \<open>
  The claim as stated promises \<open>True\<close> for every 2xx answer with an \<^verbatim>\<open>OK\<close> status.
  An answer with status 201 and that body: \<open>_index_document\<close> returns \<open>False\<close>.
\<close>

theorem index_document_201_counterexample:
  "http (mk_env [Inr (mk_response 201 (Inr (status_body ''OK'')))]) (trace w0)
        (index_call (mk_env [Inr (mk_response 201 (Inr (status_body ''OK'')))]) self0 doc0)
     = Inr (mk_response 201 (Inr (status_body ''OK'')))
   \<and> says_ok (status_body ''OK'')
   \<and> fst (p_index_document (mk_env [Inr (mk_response 201 (Inr (status_body ''OK'')))]) self0
            doc0 w0) = Inr False"
  by (simp add: p_index_document_def json_dumps_def session_request_def index_request_def
      index_call_def mk_env_def scripted_def mk_response_def doc0_def
      w0_def self0_def logging_def post_headers_def says_ok_def status_body_def)

text \<open>
  Line 249 tests that the status code holds \<^verbatim>\<open>OK\<close>: a status 200 answer with the
  code \<^verbatim>\<open>NOT_OK\<close> makes \<open>_index_document\<close> return \<open>True\<close>.
\<close>

lemma index_document_code_holding_ok:
  "fst (p_index_document (mk_env [Inr (mk_response 200 (Inr (status_body ''NOT_OK'')))]) self0
          doc0 w0) = Inr True"
  by (simp add: p_index_document_def json_dumps_def session_request_def index_request_def
      mk_env_def scripted_def mk_response_def doc0_def w0_def self0_def post_headers_def
      status_body_def already_exists_def status_ok_def)

section \<open>Uploading a file\<close>

lemma prefix_within:
  assumes "prefix xs (ys @ zs)" and "length xs \<le> length ys"
  shows "prefix xs ys"
proof -
  from assms(1) obtain us where split: "ys @ zs = xs @ us"
    by (auto simp: prefix_def)
  have "take (length xs) (ys @ zs) = xs"
    unfolding split by simp
  with assms(2) have "take (length xs) ys = xs"
    by simp
  then have "ys = xs @ drop (length xs) ys"
    by (metis append_take_drop_id)
  then show ?thesis
    by (metis prefixI)
qed

lemma py_split_from_no_sep:
  "sep \<noteq> [] \<Longrightarrow> \<not> substring sep s \<Longrightarrow> py_split_from sep cur s = [cur @ s]"
  by (induction s arbitrary: cur) auto

lemma py_split_from_at_first:
  assumes "sep \<noteq> []" and "\<not> substring sep (pre @ butlast sep)"
  shows "py_split_from sep cur (pre @ sep @ post) = (cur @ pre) # py_split_from sep [] post"
  using assms(2)
proof (induction pre arbitrary: cur)
  case Nil
  from assms(1) obtain c cs where sep: "sep = c # cs"
    by (cases sep) auto
  then show ?case by simp
next
  case (Cons a pre)
  from Cons.prems have here: "\<not> prefix sep (a # pre @ butlast sep)"
    and later: "\<not> substring sep (pre @ butlast sep)"
    by simp_all
  have "\<not> prefix sep (a # pre @ sep @ post)"
  proof
    assume whole: "prefix sep (a # pre @ sep @ post)"
    from assms(1) have "butlast sep @ [last sep] = sep"
      by simp
    then have "sep @ post = butlast sep @ last sep # post"
      by (metis append.assoc append_Cons append_Nil)
    with whole have "prefix sep ((a # pre @ butlast sep) @ (last sep # post))"
      by simp
    moreover have "length sep \<le> length (a # pre @ butlast sep)"
      by simp
    ultimately have "prefix sep (a # pre @ butlast sep)"
      by (rule prefix_within)
    with here show False ..
  qed
  with Cons.IH [OF later, of "cur @ [a]"] show ?case
    by simp
qed

lemma py_split_from_char:
  "q \<notin> set a \<Longrightarrow> py_split_from [q] cur (a @ q # t) = (cur @ a) # py_split_from [q] [] t"
  by (induction a arbitrary: cur) auto

text \<open>
  What line 183 reads out of a conflict body: when \<^verbatim>\<open>details\<close> holds the words
  \<^verbatim>\<open>document id\<close> once, followed, with no quote between, by a text in single quotes,
  that text.
\<close>

lemma conflict_doc_id_quoted:
  assumes "resp_json r = Inr (PDict kvs)"
    and "map_of kvs ''details''
           = Some (PStr (pre @ ''document id'' @ mid @ [CHR 0x27] @ doc_id @ [CHR 0x27] @ rest))"
    and "\<not> substring ''document id'' (pre @ ''document i'')"
    and "\<not> substring ''document id'' (mid @ [CHR 0x27] @ doc_id @ [CHR 0x27] @ rest)"
    and "CHR 0x27 \<notin> set mid" and "CHR 0x27 \<notin> set doc_id"
  shows "conflict_doc_id r = Inr doc_id"
proof -
  let ?post = "mid @ [CHR 0x27] @ doc_id @ [CHR 0x27] @ rest"
  have "py_split_from ''document id'' [] (pre @ ''document id'' @ ?post)
          = pre # py_split_from ''document id'' [] ?post"
    using py_split_from_at_first [of "''document id''" pre "[]" ?post] assms(3) by simp
  also have "py_split_from ''document id'' [] ?post = [?post]"
    using py_split_from_no_sep [of "''document id''" ?post "[]"] assms(4) by simp
  finally have outer: "py_split (pre @ ''document id'' @ ?post) ''document id'' = Inr [pre, ?post]"
    by (simp add: py_split_def)
  have "py_split_from [CHR 0x27] [] (mid @ CHR 0x27 # doc_id @ CHR 0x27 # rest)
          = mid # py_split_from [CHR 0x27] [] (doc_id @ CHR 0x27 # rest)"
    using py_split_from_char [OF assms(5), of "[]"] by simp
  also have "py_split_from [CHR 0x27] [] (doc_id @ CHR 0x27 # rest)
               = doc_id # py_split_from [CHR 0x27] [] rest"
    using py_split_from_char [OF assms(6), of "[]"] by simp
  finally have inner: "py_split ?post [CHR 0x27]
                         = Inr (mid # doc_id # py_split_from [CHR 0x27] [] rest)"
    by (simp add: py_split_def)
  from assms(1,2) outer inner show ?thesis
    by (simp add: conflict_doc_id_def py_index_def)
qed

text \<open>
  Let the upload of an existing file be answered with status 409.  With reindex enabled,
  the document id read out of the body of that answer, and the delete call and the
  second upload both answered, \<open>_index_file\<close> returns \<open>True\<close>, whatever the status of
  the second answer, and has made exactly three calls: the upload of the bytes of the
  file, the delete call for that id, and an upload without \<^verbatim>\<open>d=True\<close> whose file part
  is empty.  With reindex disabled it returns \<open>False\<close> and has made the first upload
  only.
\<close>

lemma index_file_conflict:
  assumes "fs w filename = Some bytes"
    and "serializable (PDict metadata)"
    and "http env (trace w) (upload_call env self True uri bytes metadata) = Inr r"
    and "status_code r = 409"
  shows "(reindex self \<longrightarrow>
           conflict_doc_id r = Inr doc_id \<longrightarrow>
           http env (trace w @ [upload_call env self True uri bytes metadata])
                (delete_call env self (PStr doc_id)) = Inr r2 \<longrightarrow>
           http env (trace w @ [upload_call env self True uri bytes metadata,
                                delete_call env self (PStr doc_id)])
                (upload_call env self False uri [] metadata) = Inr r3 \<longrightarrow>
           fst (p_index_file env self filename uri metadata w) = Inr True \<and>
           trace (snd (p_index_file env self filename uri metadata w)) =
             trace w @ [upload_call env self True uri bytes metadata,
                        delete_call env self (PStr doc_id),
                        upload_call env self False uri [] metadata])
       \<and> (\<not> reindex self \<longrightarrow>
           fst (p_index_file env self filename uri metadata w) = Inr False \<and>
           trace (snd (p_index_file env self filename uri metadata w)) =
             trace w @ [upload_call env self True uri bytes metadata])"
proof -
  have on: "fst (p_index_file env self filename uri metadata w) = Inr True \<and>
           trace (snd (p_index_file env self filename uri metadata w)) =
             trace w @ [upload_call env self True uri bytes metadata,
                        delete_call env self (PStr doc_id),
                        upload_call env self False uri [] metadata]"
    if "reindex self" and "conflict_doc_id r = Inr doc_id"
      and "http env (trace w @ [upload_call env self True uri bytes metadata])
                (delete_call env self (PStr doc_id)) = Inr r2"
      and "http env (trace w @ [upload_call env self True uri bytes metadata,
                                delete_call env self (PStr doc_id)])
                (upload_call env self False uri [] metadata) = Inr r3"
    using that assms
    by (simp add: p_index_file_def delete_doc_def json_dumps_def session_request_def
        upload_call_def delete_call_def logging_def)
  have off: "fst (p_index_file env self filename uri metadata w) = Inr False \<and>
           trace (snd (p_index_file env self filename uri metadata w)) =
             trace w @ [upload_call env self True uri bytes metadata]"
    if "\<not> reindex self"
    using that assms
    by (simp add: p_index_file_def json_dumps_def session_request_def upload_call_def)
  from on off show ?thesis by blast
qed

lemma conflict_response_doc_id: "conflict_doc_id conflict_response = Inr ''doc-9''"
proof -
  have "resp_json conflict_response
          = Inr (PDict [(''details'',
                   PStr ((''Indexing doesn'' @ [CHR 0x27] @ ''t support updating documents. Found '')
                         @ ''document id'' @ '' '' @ [CHR 0x27] @ ''doc-9'' @ [CHR 0x27]
                         @ '' in the corpus.''))])"
    by (simp add: conflict_response_def mk_response_def)
  then show ?thesis
    by (rule conflict_doc_id_quoted
          [where pre = "''Indexing doesn'' @ [CHR 0x27] @ ''t support updating documents. Found ''"
             and mid = "'' ''" and doc_id = "''doc-9''" and rest = "'' in the corpus.''"])
       simp_all
qed

text \<open>
  C8 fails at the resubmission.  An existing file \<^verbatim>\<open>a.pdf\<close> with the bytes
  \<^verbatim>\<open>%PDF-1.4\<close>, reindex enabled, the upload answered with status 409 and a body naming
  \<^verbatim>\<open>doc-9\<close>: \<open>_index_file\<close> deletes \<^verbatim>\<open>doc-9\<close>, then posts a file part without
  bytes, and returns \<open>True\<close>.  The upload itself is not sent again.
\<close>

theorem index_file_conflict_resubmits_no_bytes:
  "fs w0 ''a.pdf'' = Some ''%PDF-1.4''
   \<and> reindex self0
   \<and> status_code conflict_response = 409
   \<and> conflict_doc_id conflict_response = Inr ''doc-9''
   \<and> fst (p_index_file (mk_env conflict_answers) self0 ''a.pdf'' ''http://a/a.pdf'' [] w0)
       = Inr True
   \<and> trace (snd (p_index_file (mk_env conflict_answers) self0 ''a.pdf'' ''http://a/a.pdf'' [] w0))
       = [PostUpload ''api.vectara.io'' ''42'' 7 True ''http://a/a.pdf'' ''%PDF-1.4'' ''json''
            (''key'', ''42''),
          PostDeleteDoc ''api.vectara.io'' ''json'' (''key'', ''42''),
          PostUpload ''api.vectara.io'' ''42'' 7 False ''http://a/a.pdf'' [] ''json''
            (''key'', ''42'')]"
proof -
  let ?env = "mk_env conflict_answers"
  have present: "fs w0 ''a.pdf'' = Some ''%PDF-1.4''"
    by (simp add: w0_def)
  have ser: "serializable (PDict [])"
    by simp
  have first: "http ?env (trace w0) (upload_call ?env self0 True ''http://a/a.pdf'' ''%PDF-1.4'' [])
                 = Inr conflict_response"
    by (simp add: mk_env_def scripted_def conflict_answers_def w0_def)
  have st: "status_code conflict_response = 409"
    by (simp add: conflict_response_def mk_response_def)
  have second: "http ?env (trace w0 @ [upload_call ?env self0 True ''http://a/a.pdf'' ''%PDF-1.4'' []])
                  (delete_call ?env self0 (PStr ''doc-9''))
                 = Inr (mk_response 500 (Inl JSONDecodeError))"
    by (simp add: mk_env_def scripted_def conflict_answers_def w0_def)
  have third: "http ?env (trace w0 @ [upload_call ?env self0 True ''http://a/a.pdf'' ''%PDF-1.4'' [],
                                       delete_call ?env self0 (PStr ''doc-9'')])
                  (upload_call ?env self0 False ''http://a/a.pdf'' [] [])
                 = Inr (mk_response 503 (Inl JSONDecodeError))"
    by (simp add: mk_env_def scripted_def conflict_answers_def w0_def)
  have on: "reindex self0"
    by (simp add: self0_def)
  from index_file_conflict [OF present ser first st, of "''doc-9''"] on
    conflict_response_doc_id second third
  have "fst (p_index_file ?env self0 ''a.pdf'' ''http://a/a.pdf'' [] w0) = Inr True \<and>
        trace (snd (p_index_file ?env self0 ''a.pdf'' ''http://a/a.pdf'' [] w0)) =
          trace w0 @ [upload_call ?env self0 True ''http://a/a.pdf'' ''%PDF-1.4'' [],
                      delete_call ?env self0 (PStr ''doc-9''),
                      upload_call ?env self0 False ''http://a/a.pdf'' [] []]"
    by blast
  with present on st conflict_response_doc_id show ?thesis
    by (simp add: upload_call_def delete_call_def mk_env_def self0_def w0_def post_headers_def)
qed

section \<open>Extracting from a PDF\<close>

lemma first_of_filter:
  "(case find P xs of None \<Rightarrow> u | Some x \<Rightarrow> f x)
     = (if filter P xs = [] then u else f (filter P xs ! 0))"
  by (induction xs) auto

lemma pdf_title_first: "pdf_title elements = first_long_title elements"
  by (simp add: pdf_title_def first_long_title_def first_of_filter)

lemma kept_selected: "filter (kept tables_only) elements = selected tables_only elements"
  by (cases tables_only) (auto simp: kept_def selected_def intro!: filter_cong)

lemma pdf_texts_returns:
  assumes "\<forall>t \<in> set elements. el_type t = Table \<and> summarize_tables self \<longrightarrow>
             (\<exists>s. summarize (el_str t) = Inr s)"
  shows "\<exists>texts. pdf_texts summarize self tables_only elements = Inr texts \<and>
           map Inr texts = map (element_text summarize self) (filter (kept tables_only) elements)"
  using assms
proof (induction elements)
  case Nil
  then show ?case by simp
next
  case (Cons t ts)
  then obtain texts where rest: "pdf_texts summarize self tables_only ts = Inr texts"
    and shape: "map Inr texts = map (element_text summarize self) (filter (kept tables_only) ts)"
    by auto
  have "\<exists>s. element_text summarize self t = Inr s"
    using Cons.prems
    by (cases "el_type t = Table \<and> summarize_tables self") (auto simp: element_text_def)
  then obtain s where s: "element_text summarize self t = Inr s" ..
  show ?case
    using rest shape s by simp
qed

text \<open>
  What \<open>_parse_pdf_file\<close> returns when it returns.  For a file that partitions into
  \<open>elements\<close>, with the summarizer of line 263 built and every table summary that is
  asked for delivered: as title the text of the first element typed as a title whose
  text is longer than 10 characters, or \<^verbatim>\<open>unknown\<close> when there is none; as texts one
  text per selected element, in the order of the partition, where the selected elements
  are the tables in tables-only mode and the elements that are not titles otherwise.
  Without table summarization each text is the text of its element.
\<close>

lemma parse_pdf_file_title_and_texts:
  assumes "fs w filename = Some bytes"
    and "partition_pdf env bytes = Inr elements"
    and "table_summarizer env (openai_api_key self) = Inr summarize"
    and "\<forall>t \<in> set elements. el_type t = Table \<and> summarize_tables self \<longrightarrow>
           (\<exists>s. summarize (el_str t) = Inr s)"
  shows "\<exists>texts. p_parse_pdf_file env self filename tables_only w
                    = Inr (first_long_title elements, texts)
           \<and> map Inr texts = map (element_text summarize self) (selected tables_only elements)
           \<and> (\<not> summarize_tables self \<longrightarrow>
                texts = map el_str (selected tables_only elements))"
proof -
  from pdf_texts_returns [OF assms(4), of tables_only]
  obtain texts where t: "pdf_texts summarize self tables_only elements = Inr texts"
    and shape: "map Inr texts = map (element_text summarize self) (selected tables_only elements)"
    by (auto simp: kept_selected)
  have plain: "texts = map el_str (selected tables_only elements)" if "\<not> summarize_tables self"
  proof -
    from that have "element_text summarize self = (\<lambda>t. Inr (el_str t))"
      by (simp add: element_text_def fun_eq_iff)
    with shape have "map (Inr :: string \<Rightarrow> error + string) texts
                       = map Inr (map el_str (selected tables_only elements))"
      by (simp add: comp_def)
    then show ?thesis
      by (simp only: inj_map_eq_map [OF inj_Inr])
  qed
  from assms(1,2,3) t have "p_parse_pdf_file env self filename tables_only w
                    = Inr (first_long_title elements, texts)"
    by (simp add: p_parse_pdf_file_def pdf_title_first)
  with shape plain show ?thesis by blast
qed

lemma parse_pdf_file_examples:
  "p_parse_pdf_file (mk_env []) self0 ''a.pdf'' False w0
     = Inr (''Annual report'', [''Some words.'', ''a b c''])
   \<and> p_parse_pdf_file (mk_env []) self0 ''a.pdf'' True w0
     = Inr (''Annual report'', [''a b c''])
   \<and> p_parse_pdf_file (mk_env []) (self0\<lparr>summarize_tables := True\<rparr>) ''a.pdf'' True w0
     = Inr (''Annual report'', [''summary of a b c''])"
proof -
  let ?summarize = "\<lambda>s. Inr (''summary of '' @ s) :: error + string"
  have present: "fs w0 ''a.pdf'' = Some ''%PDF-1.4''"
    by (simp add: w0_def)
  have parts: "partition_pdf (mk_env []) ''%PDF-1.4'' = Inr sample_elements"
    by (simp add: mk_env_def)
  have built: "table_summarizer (mk_env []) (openai_api_key self0) = Inr ?summarize"
       "table_summarizer (mk_env []) (openai_api_key (self0\<lparr>summarize_tables := True\<rparr>))
          = Inr ?summarize"
    by (simp_all add: mk_env_def self0_def)
  have summ: "\<forall>t \<in> set sample_elements. el_type t = Table \<and> summarize_tables s \<longrightarrow>
                (\<exists>x. ?summarize (el_str t) = Inr x)" for s
    by simp
  have title: "first_long_title sample_elements = ''Annual report''"
    by (simp add: first_long_title_def sample_elements_def)
  have sel: "selected False sample_elements
               = [\<lparr>el_type = NarrativeText, el_str = ''Some words.''\<rparr>,
                  \<lparr>el_type = Table, el_str = ''a b c''\<rparr>]"
       "selected True sample_elements = [\<lparr>el_type = Table, el_str = ''a b c''\<rparr>]"
    by (simp_all add: selected_def sample_elements_def)
  have plain: "\<not> summarize_tables self0"
    by (simp add: self0_def)
  from parse_pdf_file_title_and_texts [OF present parts built(1) summ, of False] plain title sel
  have a: "p_parse_pdf_file (mk_env []) self0 ''a.pdf'' False w0
             = Inr (''Annual report'', [''Some words.'', ''a b c''])"
    by auto
  from parse_pdf_file_title_and_texts [OF present parts built(1) summ, of True] plain title sel
  have b: "p_parse_pdf_file (mk_env []) self0 ''a.pdf'' True w0
             = Inr (''Annual report'', [''a b c''])"
    by auto
  from parse_pdf_file_title_and_texts [OF present parts built(2) summ, of True] title sel
  have c: "p_parse_pdf_file (mk_env []) (self0\<lparr>summarize_tables := True\<rparr>) ''a.pdf'' True w0
             = Inr (''Annual report'', [''summary of a b c''])"
    by (auto simp: element_text_def)
  from a b c show ?thesis by simp
qed

text \<open>
  C9 fails for an indexer without an OpenAI key.  \<^verbatim>\<open>__init__\<close> provides for that
  configuration and switches table summarization off; line 263 builds the summarizer
  all the same, from the key that is not there, and the exception it raises leaves
  \<open>_parse_pdf_file\<close>: no title and no texts are returned, for any PDF.
\<close>

theorem parse_pdf_file_without_key_raises:
  "openai_api_key no_key_indexer = None
   \<and> \<not> summarize_tables no_key_indexer
   \<and> fs w0 ''a.pdf'' = Some ''%PDF-1.4''
   \<and> partition_pdf accept_all ''%PDF-1.4'' = Inr sample_elements
   \<and> p_parse_pdf_file accept_all no_key_indexer ''a.pdf'' False w0
       = Inl (LibraryError ''no OpenAI key'')"
  by (simp add: p_parse_pdf_file_def no_key_indexer_def new_indexer_def accept_all_def
      mk_env_def w0_def logging_def)

section \<open>Assembling a document\<close>

lemma sections_default:
  "sections env (zip texts (zip (map (\<lambda>_. []) texts) (map (\<lambda>_. []) texts)))
     = Inr (map (default_segment env) texts)"
  by (induction texts) (simp_all add: json_dumps_def default_segment_def)

text \<open>
  C7.  For every \<open>doc_id\<close>, \<open>texts\<close>, \<open>doc_title\<close> and every \<open>doc_metadata\<close> that
  \<^verbatim>\<open>json.dumps\<close> accepts, \<open>index_segments\<close> without titles and metadatas does not
  raise while it builds the document, and passes to \<open>index_document\<close> a document whose
  \<^verbatim>\<open>section\<close> list has one entry per element of \<open>texts\<close>, in the same order, each
  with the empty title and the metadata of the empty dict; its \<^verbatim>\<open>title\<close> is present
  exactly when \<open>doc_title\<close> is a non-empty string, its \<^verbatim>\<open>metadataJson\<close> exactly when
  \<open>doc_metadata\<close> is non-empty.  For \<open>texts = []\<close> the section list is empty.
\<close>

theorem index_segments_default_document:
  assumes "serializable (PDict doc_metadata)"
  shows "\<exists>document.
           build_document env doc_id texts None None doc_metadata doc_title = Inr document
         \<and> index_segments env self doc_id texts None None doc_metadata doc_title w
             = index_document env self document w
         \<and> map_of document ''documentId'' = Some (PStr doc_id)
         \<and> map_of document ''section'' = Some (PList (map (default_segment env) texts))
         \<and> map_of document ''title''
             = (case doc_title of
                  None \<Rightarrow> None
                | Some t \<Rightarrow> if t = [] then None else Some (PStr t))
         \<and> map_of document ''metadataJson''
             = (if doc_metadata = [] then None
                else Some (PStr (encode env (PDict doc_metadata))))"
proof -
  let ?head = "case doc_title of
                 None \<Rightarrow> [(''documentId'', PStr doc_id)]
               | Some t \<Rightarrow> if t = [] then [(''documentId'', PStr doc_id)]
                           else [(''documentId'', PStr doc_id), (''title'', PStr t)]"
  let ?tail = "if doc_metadata = [] then []
               else [(''metadataJson'', PStr (encode env (PDict doc_metadata)))]"
  let ?document = "?head @ [(''section'', PList (map (default_segment env) texts))] @ ?tail"
  have built: "build_document env doc_id texts None None doc_metadata doc_title = Inr ?document"
    using assms
    by (simp add: build_document_def sections_default json_dumps_def split: option.splits)
  then have passed: "index_segments env self doc_id texts None None doc_metadata doc_title w
                       = index_document env self ?document w"
    by (simp add: index_segments_def)
  have id: "map_of ?document ''documentId'' = Some (PStr doc_id)"
    by (simp split: option.splits)
  have sec: "map_of ?document ''section'' = Some (PList (map (default_segment env) texts))"
    by (simp split: option.splits)
  have title: "map_of ?document ''title''
                 = (case doc_title of
                      None \<Rightarrow> None
                    | Some t \<Rightarrow> if t = [] then None else Some (PStr t))"
    by (simp split: option.splits)
  have meta: "map_of ?document ''metadataJson''
                = (if doc_metadata = [] then None
                   else Some (PStr (encode env (PDict doc_metadata))))"
    by (simp split: option.splits)
  from built passed id sec title meta show ?thesis
    by blast
qed

theorem index_segments_default_document_witness:
  "(\<exists>document.
      build_document (mk_env []) ''doc-1'' [''a'', ''b''] None None [(''url'', PStr ''http://a'')]
        (Some ''T'') = Inr document
    \<and> map_of document ''documentId'' = Some (PStr ''doc-1'')
    \<and> map_of document ''section''
        = Some (PList [PDict [(''text'', PStr ''a''), (''title'', PStr []),
                              (''metadataJson'', PStr ''json'')],
                       PDict [(''text'', PStr ''b''), (''title'', PStr []),
                              (''metadataJson'', PStr ''json'')]])
    \<and> map_of document ''title'' = Some (PStr ''T'')
    \<and> map_of document ''metadataJson'' = Some (PStr ''json''))
   \<and> (\<exists>document.
      build_document (mk_env []) ''doc-1'' [] None None [] (Some []) = Inr document
    \<and> map_of document ''documentId'' = Some (PStr ''doc-1'')
    \<and> map_of document ''section'' = Some (PList [])
    \<and> map_of document ''title'' = None
    \<and> map_of document ''metadataJson'' = None)"
proof -
  have ser: "serializable (PDict [(''url'', PStr ''http://a'')])" "serializable (PDict [])"
    by simp_all
  have enc: "encode (mk_env []) v = ''json''" for v
    by (simp add: mk_env_def)
  from index_segments_default_document [OF ser(1), of "mk_env []" "''doc-1''" "[''a'', ''b'']"
      "Some ''T''" self0 w0]
  have a: "\<exists>document.
      build_document (mk_env []) ''doc-1'' [''a'', ''b''] None None [(''url'', PStr ''http://a'')]
        (Some ''T'') = Inr document
    \<and> map_of document ''documentId'' = Some (PStr ''doc-1'')
    \<and> map_of document ''section''
        = Some (PList [PDict [(''text'', PStr ''a''), (''title'', PStr []),
                              (''metadataJson'', PStr ''json'')],
                       PDict [(''text'', PStr ''b''), (''title'', PStr []),
                              (''metadataJson'', PStr ''json'')]])
    \<and> map_of document ''title'' = Some (PStr ''T'')
    \<and> map_of document ''metadataJson'' = Some (PStr ''json'')"
    by (simp add: default_segment_def enc) blast
  from index_segments_default_document [OF ser(2), of "mk_env []" "''doc-1''" "[]"
      "Some []" self0 w0]
  have b: "\<exists>document.
      build_document (mk_env []) ''doc-1'' [] None None [] (Some []) = Inr document
    \<and> map_of document ''documentId'' = Some (PStr ''doc-1'')
    \<and> map_of document ''section'' = Some (PList [])
    \<and> map_of document ''title'' = None
    \<and> map_of document ''metadataJson'' = None"
    by simp blast
  from a b show ?thesis ..
qed

section \<open>Indexing a URL\<close>

lemma py_split_from_first:
  "\<exists>rest. py_split_from [c] cur s = (cur @ takeWhile (\<lambda>x. x \<noteq> c) s) # rest"
proof (induction s arbitrary: cur)
  case Nil
  then show ?case by simp
next
  case (Cons a s)
  show ?case
  proof (cases "a = c")
    case True
    then show ?thesis by simp
  next
    case False
    with Cons [of "cur @ [a]"] show ?thesis by auto
  qed
qed

lemma split_fragment: "\<exists>rest. py_split url ''#'' = Inr (strip_fragment url # rest)"
  using py_split_from_first [of "CHR ''#''" "[]" url]
  by (simp add: py_split_def strip_fragment_def)

lemma fetch_page_contents_trace: "trace (snd (fetch_page_contents env url w)) = trace w"
  by (simp add: fetch_page_contents_def logging_def split: page_load.splits)

text \<open>
  C6.  For a URL that, its fragment removed, does not trigger a download: when the
  content that \<open>fetch_page_contents\<close> returns has fewer than 3 characters, \<open>index_url\<close>
  returns \<open>False\<close> in the world the fetch left, in which no HTTP call has been added:
  neither \<open>index_segments\<close> nor \<open>index_document\<close> has run.
\<close>

theorem index_url_short_content:
  assumes "\<not> url_triggers_download env (strip_fragment url0)"
    and "fetch_page_contents env (strip_fragment url0) w = ((content, actual_url, links), w1)"
    and "length content < 3"
  shows "index_url env self url0 metadata w = (Inr False, w1) \<and> trace w1 = trace w"
proof -
  obtain rest where "py_split url0 ''#'' = Inr (strip_fragment url0 # rest)"
    using split_fragment by blast
  with assms have "index_url env self url0 metadata w = (Inr False, w1)"
    by (simp add: index_url_def py_index_def)
  moreover from assms(2) fetch_page_contents_trace [of env "strip_fragment url0" w]
  have "trace w1 = trace w"
    by simp
  ultimately show ?thesis ..
qed

theorem index_url_short_content_witness:
  "\<not> url_triggers_download (mk_env []) ''http://a/short''
   \<and> fetch_page_contents (mk_env []) ''http://a/short'' w0
       = ((''ab'', ''http://a/short'', []), w0)
   \<and> index_url (mk_env []) self0 ''http://a/short#top'' [] w0 = (Inr False, w0)"
proof -
  have strip: "strip_fragment ''http://a/short#top'' = ''http://a/short''"
    by (simp add: strip_fragment_def)
  have no_download: "\<not> url_triggers_download (mk_env []) ''http://a/short''"
    by (simp add: url_triggers_download_def mk_env_def endswith_def suffix_to_prefix)
  have fetched: "fetch_page_contents (mk_env []) ''http://a/short'' w0
                   = ((''ab'', ''http://a/short'', []), w0)"
    by (simp add: fetch_page_contents_def mk_env_def)
  have short: "length ''ab'' < 3"
    by simp
  from index_url_short_content [of "mk_env []" "''http://a/short#top''" w0 "''ab''"
      "''http://a/short''" "[]" w0 self0 "[]"] strip no_download fetched short
  have "index_url (mk_env []) self0 ''http://a/short#top'' [] w0 = (Inr False, w0)"
    by simp
  with no_download fetched show ?thesis by simp
qed

text \<open>
  C2 fails on the download path.  A URL ending in \<^verbatim>\<open>.md\<close> that triggers a download
  and is served with status 200: line 302 reads the unassigned local \<^verbatim>\<open>content\<close>,
  and \<open>index_url\<close> raises \<^verbatim>\<open>UnboundLocalError\<close> instead of returning \<open>False\<close>.
\<close>

theorem index_url_markdown_download_raises:
  "url_triggers_download (mk_env [Inr (mk_response 200 (Inl JSONDecodeError))]) ''http://a/readme.md''
   \<and> fst (index_url (mk_env [Inr (mk_response 200 (Inl JSONDecodeError))]) self0
             ''http://a/readme.md'' [] w0) = Inl UnboundLocalError"
  by (simp add: index_url_def py_split_def py_index_def url_triggers_download_def mk_env_def
      endswith_def suffix_to_prefix session_request_def scripted_def mk_response_def w0_def
      logging_def)

section \<open>Indexing a file\<close>










lemma pdf_texts_shape:
  "pdf_texts summarize self tables_only elements = Inr texts \<Longrightarrow>
     map Inr texts = map (element_text summarize self) (filter (kept tables_only) elements)"
proof (induction elements arbitrary: texts)
  case Nil
  then show ?case by simp
next
  case (Cons t ts)
  show ?case
  proof (cases "kept tables_only t")
    case True
    with Cons.prems obtain s ss where "element_text summarize self t = Inr s"
      and "pdf_texts summarize self tables_only ts = Inr ss" and "texts = s # ss"
      by (auto split: sum.splits)
    with True Cons.IH [of ss] show ?thesis by simp
  next
    case False
    with Cons show ?thesis by simp
  qed
qed

text \<open>
  C3 (as amended).  For an existing file whose name ends in \<^verbatim>\<open>.pdf\<close>, below the size
  threshold, with table summarization enabled, \<open>index_file\<close> first runs a secondary
  pass: it extracts in tables-only mode (so the texts come from the table elements
  only, in order) and calls \<open>index_segments\<close> with the document id
  \<open>slugify (filename + "_tables")\<close> and the title \<open>"Tables for " + filename\<close>.  An
  exception raised by the extraction or by that call makes \<open>index_file\<close> return
  \<open>False\<close>.  When the call returns, whatever it returns, \<open>index_file\<close> goes on to the
  raw upload \<open>_index_file\<close> and returns its result.
\<close>

theorem index_file_tables_pass:
  assumes "fs w filename = Some bytes"
    and "endswith filename ''.pdf''"
    and "get_file_size_in_MB env bytes < 50"
    and "summarize_tables self"
  shows "(p_parse_pdf_file env self filename True w = Inl e \<longrightarrow>
            index_file env self filename uri metadata w
              = (Inr False, logging INFO Failed_to_index [LStr filename, LErr e] w))
       \<and> (p_parse_pdf_file env self filename True w = Inr (title, texts) \<longrightarrow>
            (partition_pdf env bytes = Inr elements \<longrightarrow>
             table_summarizer env (openai_api_key self) = Inr summarize \<longrightarrow>
               map Inr texts
                 = map (element_text summarize self) (filter (\<lambda>t. el_type t = Table) elements))
          \<and> (index_segments env self (slugify env (filename @ ''_tables'')) texts None None
                 metadata (Some (''Tables for '' @ filename)) w = (Inl e, w1) \<longrightarrow>
               index_file env self filename uri metadata w
                 = (Inr False, logging INFO Failed_to_index [LStr filename, LErr e] w1))
          \<and> (index_segments env self (slugify env (filename @ ''_tables'')) texts None None
                 metadata (Some (''Tables for '' @ filename)) w = (Inr succeeded, w1) \<longrightarrow>
               index_file env self filename uri metadata w
                 = p_index_file env self filename uri metadata w1))"
proof -
  have failed: "index_file env self filename uri metadata w
                  = (Inr False, logging INFO Failed_to_index [LStr filename, LErr e] w)"
    if "p_parse_pdf_file env self filename True w = Inl e"
    using that assms by (simp add: index_file_def tables_pass_def)
  have tables: "map Inr texts
                  = map (element_text summarize self) (filter (\<lambda>t. el_type t = Table) elements)"
    if "p_parse_pdf_file env self filename True w = Inr (title, texts)"
      and "partition_pdf env bytes = Inr elements"
      and "table_summarizer env (openai_api_key self) = Inr summarize"
  proof -
    from that assms(1) have "pdf_texts summarize self True elements = Inr texts"
      by (simp add: p_parse_pdf_file_def split: sum.splits)
    from pdf_texts_shape [OF this] show ?thesis
      by (simp add: kept_selected selected_def)
  qed
  have raised: "index_file env self filename uri metadata w
                  = (Inr False, logging INFO Failed_to_index [LStr filename, LErr e] w1)"
    if "p_parse_pdf_file env self filename True w = Inr (title, texts)"
      and "index_segments env self (slugify env (filename @ ''_tables'')) texts None None
             metadata (Some (''Tables for '' @ filename)) w = (Inl e, w1)"
    using that assms by (simp add: index_file_def tables_pass_def)
  have returned: "index_file env self filename uri metadata w
                    = p_index_file env self filename uri metadata w1"
    if "p_parse_pdf_file env self filename True w = Inr (title, texts)"
      and "index_segments env self (slugify env (filename @ ''_tables'')) texts None None
             metadata (Some (''Tables for '' @ filename)) w = (Inr succeeded, w1)"
    using that assms by (simp add: index_file_def tables_pass_def)
  from failed tables raised returned show ?thesis by blast
qed

lemma small_file:
  "fs w0 ''a.pdf'' = Some ''%PDF-1.4''" "endswith ''a.pdf'' ''.pdf''"
  "get_file_size_in_MB garbled_env ''%PDF-1.4'' < 50"
  "get_file_size_in_MB bad_pdf_env ''%PDF-1.4'' < 50"
  "get_file_size_in_MB refuse_then_accept ''%PDF-1.4'' < 50"
  "summarize_tables tables_indexer"
  by (simp_all add: w0_def endswith_def suffix_to_prefix mk_env_def bad_pdf_env_def
      garbled_env_def refuse_then_accept_def accept_all_def tables_indexer_def self0_def)

lemma tables_parsed:
  "p_parse_pdf_file garbled_env tables_indexer ''a.pdf'' True w0
     = Inr (''Annual report'', [''summary of a b c''])"
  "p_parse_pdf_file refuse_then_accept tables_indexer ''a.pdf'' True w0
     = Inr (''Annual report'', [''summary of a b c''])"
  by (simp_all add: p_parse_pdf_file_def w0_def garbled_env_def refuse_then_accept_def mk_env_def
      sample_elements_def pdf_title_def kept_def element_text_def tables_indexer_def self0_def)

lemma tables_slug:
  "slugify refuse_then_accept (''a.pdf'' @ ''_tables'') = ''a-pdf-tables''"
  "slugify refuse_then_accept ''a.pdf'' @ ''_tables'' = ''a-pdf_tables''"
  by (simp_all add: refuse_then_accept_def ascii_slug_def slug_char_def lower_char_def)

lemma tables_segments_refused:
  "index_segments refuse_then_accept tables_indexer (slugify refuse_then_accept (''a.pdf'' @ ''_tables''))
     [''summary of a b c''] None None [] (Some (''Tables for '' @ ''a.pdf'')) w0
   = (Inr False,
      w0\<lparr>trace := [PostIndex ''api.vectara.io'' ''a-pdf-tables'' (''key'', ''42'')],
         logs := [(ERROR, REST_upload_failed, [LInt 500, LStr ''reason'', LStr ''text''])]\<rparr>)"
  by (simp add: index_segments_def index_document_def build_document_def
      json_dumps_def p_index_document_def index_request_def session_request_def
      refuse_then_accept_def document_id_of_def ascii_slug_def slug_char_def lower_char_def
      mk_env_def scripted_def mk_response_def w0_def
      tables_indexer_def self0_def post_headers_def logging_def)

lemma tables_segments_garbled:
  "index_segments garbled_env tables_indexer (slugify garbled_env (''a.pdf'' @ ''_tables''))
     [''summary of a b c''] None None [] (Some (''Tables for '' @ ''a.pdf'')) w0
   = (Inl JSONDecodeError,
      w0\<lparr>trace := [PostIndex ''api.vectara.io'' ''json'' (''key'', ''42'')]\<rparr>)"
  by (simp add: index_segments_def index_document_def build_document_def json_dumps_def
      p_index_document_def index_request_def session_request_def garbled_env_def
      mk_env_def scripted_def mk_response_def w0_def tables_indexer_def self0_def
      post_headers_def logging_def)

lemma upload_after_refusal:
  "p_index_file refuse_then_accept tables_indexer ''a.pdf'' ''file://a.pdf'' []
          (w0\<lparr>trace := [PostIndex ''api.vectara.io'' ''a-pdf-tables'' (''key'', ''42'')],
              logs := [(ERROR, REST_upload_failed, [LInt 500, LStr ''reason'', LStr ''text''])]\<rparr>)
   = (Inr True,
      w0\<lparr>trace := [PostIndex ''api.vectara.io'' ''a-pdf-tables'' (''key'', ''42''),
                   PostUpload ''api.vectara.io'' ''42'' 7 True ''file://a.pdf'' ''%PDF-1.4''
                     ''json'' (''key'', ''42'')],
         logs := [(ERROR, REST_upload_failed, [LInt 500, LStr ''reason'', LStr ''text'']),
                  (INFO, REST_upload_successful, [LStr ''file://a.pdf''])]\<rparr>)"
  by (simp add: p_index_file_def json_dumps_def session_request_def refuse_then_accept_def
      document_id_of_def mk_env_def scripted_def mk_response_def w0_def tables_indexer_def
      self0_def post_headers_def logging_def)

theorem index_file_tables_pass_witness:
  "p_parse_pdf_file bad_pdf_env tables_indexer ''a.pdf'' True w0 = Inl (LibraryError ''not a PDF'')
   \<and> fst (index_file bad_pdf_env tables_indexer ''a.pdf'' ''file://a.pdf'' [] w0) = Inr False
   \<and> fst (index_segments garbled_env tables_indexer (slugify garbled_env (''a.pdf'' @ ''_tables''))
            [''summary of a b c''] None None [] (Some (''Tables for '' @ ''a.pdf'')) w0)
       = Inl JSONDecodeError
   \<and> fst (index_file garbled_env tables_indexer ''a.pdf'' ''file://a.pdf'' [] w0) = Inr False
   \<and> fst (index_segments refuse_then_accept tables_indexer
            (slugify refuse_then_accept (''a.pdf'' @ ''_tables''))
            [''summary of a b c''] None None [] (Some (''Tables for '' @ ''a.pdf'')) w0)
       = Inr False
   \<and> fst (index_file refuse_then_accept tables_indexer ''a.pdf'' ''file://a.pdf'' [] w0) = Inr True"
proof -
  have bad: "p_parse_pdf_file bad_pdf_env tables_indexer ''a.pdf'' True w0
               = Inl (LibraryError ''not a PDF'')"
    by (simp add: p_parse_pdf_file_def bad_pdf_env_def w0_def)
  from index_file_tables_pass [OF small_file(1,2,4,6),
      of "LibraryError ''not a PDF''" "''file://a.pdf''" "[]"] bad
  have a: "fst (index_file bad_pdf_env tables_indexer ''a.pdf'' ''file://a.pdf'' [] w0) = Inr False"
    by simp
  from index_file_tables_pass [OF small_file(1,2,3,6), of JSONDecodeError
      "''file://a.pdf''" "[]" "''Annual report''" "[''summary of a b c'']"]
    tables_parsed(1) tables_segments_garbled
  have b: "fst (index_file garbled_env tables_indexer ''a.pdf'' ''file://a.pdf'' [] w0) = Inr False"
    by simp
  from index_file_tables_pass [OF small_file(1,2,5,6), of _
      "''file://a.pdf''" "[]" "''Annual report''" "[''summary of a b c'']" _ _ _ False]
    tables_parsed(2) tables_segments_refused upload_after_refusal
  have c: "fst (index_file refuse_then_accept tables_indexer ''a.pdf'' ''file://a.pdf'' [] w0)
             = Inr True"
    by simp
  from a b c bad tables_segments_garbled tables_segments_refused show ?thesis
    by simp
qed

text \<open>
  The claim as stated fails twice.  With table summarization enabled and the small PDF
  \<^verbatim>\<open>a.pdf\<close>, the id of the tables document is the slug of \<^verbatim>\<open>a.pdf_tables\<close>,
  \<^verbatim>\<open>a-pdf-tables\<close>, and not the id \<^verbatim>\<open>a-pdf\<close> of the document with
  \<^verbatim>\<open>_tables\<close> after it.  And when the remote side refuses the index call of the
  tables document with status 500 and accepts the upload, the secondary
  \<open>index_segments\<close> returns \<open>False\<close>, and \<open>index_file\<close> returns \<open>True\<close>.
\<close>

theorem index_file_tables_failure_counterexample:
  "summarize_tables tables_indexer
   \<and> endswith ''a.pdf'' ''.pdf''
   \<and> get_file_size_in_MB refuse_then_accept ''%PDF-1.4'' < 50
   \<and> slugify refuse_then_accept ''a.pdf'' @ ''_tables'' = ''a-pdf_tables''
   \<and> fst (index_segments refuse_then_accept tables_indexer
            (slugify refuse_then_accept (''a.pdf'' @ ''_tables''))
            [''summary of a b c''] None None [] (Some (''Tables for '' @ ''a.pdf'')) w0)
       = Inr False
   \<and> fst (index_file refuse_then_accept tables_indexer ''a.pdf'' ''file://a.pdf'' [] w0) = Inr True
   \<and> trace (snd (index_file refuse_then_accept tables_indexer ''a.pdf'' ''file://a.pdf'' [] w0))
       = [PostIndex ''api.vectara.io'' ''a-pdf-tables'' (''key'', ''42''),
          PostUpload ''api.vectara.io'' ''42'' 7 True ''file://a.pdf'' ''%PDF-1.4'' ''json''
            (''key'', ''42'')]"
  by (simp add: index_file_def tables_pass_def p_parse_pdf_file_def sample_elements_def
      pdf_title_def kept_def element_text_def endswith_def suffix_to_prefix
      index_segments_def index_document_def build_document_def json_dumps_def
      p_index_document_def p_index_file_def index_request_def session_request_def
      refuse_then_accept_def document_id_of_def ascii_slug_def slug_char_def lower_char_def
      mk_env_def scripted_def mk_response_def w0_def tables_indexer_def
      self0_def post_headers_def logging_def)

end
